theory Spec2Isabelle
  imports Main "HOL-Library.Word" "HOL-Library.Sublist" "HOL-Library.List_Lexorder"
begin

section \<open>The LPC bridge: an embedding of \<^verbatim>\<open>src/index.js\<close> and its registerTool variant\<close>

text \<open>
  The repository holds one class, \<^verbatim>\<open>LPCMCPServer\<close>, in two variants that offer the four
  tools: a dispatcher that handles every tool call in one \<^verbatim>\<open>CallToolRequestSchema\<close>
  handler (\<^verbatim>\<open>src/index.js\<close>), and a variant that registers one handler per tool with
  \<^verbatim>\<open>registerTool\<close> and looks the extension directory up. They share the \<^verbatim>\<open>cleanStream\<close>
  filter, the handshake of \<^verbatim>\<open>startLSP\<close> and the diagnostics cache. (The \<^verbatim>\<open>index.js\<close> at the
  root is an earlier dispatcher with three tools, which neither opens documents nor keeps
  diagnostics; it is not embedded here.) Everything outside the class (the file system, the
  language server, the JSON-RPC connection, \<^verbatim>\<open>JSON.stringify\<close>, \<^verbatim>\<open>path.join\<close>, timers) is a
  parameter of the model.
\<close>

subsection \<open>The stream filter \<^verbatim>\<open>cleanStream\<close>\<close>

text \<open>
  A JavaScript string is a sequence of 16-bit code units. \<^verbatim>\<open>lit\<close> embeds an ASCII
  literal of the source.
\<close>

type_synonym jsstring = "16 word list"

definition lit :: "string \<Rightarrow> jsstring" where
  "lit s = map of_char s"

text \<open>
  \<^verbatim>\<open>String.prototype.trim\<close> removes white space and line terminators from both ends:
  TAB, LF, VT, FF, CR, SP, NBSP, the Unicode space separators, LS, PS and the BOM.
\<close>

definition isWhiteSpace :: "16 word \<Rightarrow> bool" where
  "isWhiteSpace c \<longleftrightarrow>
     c \<in> set [0x0009, 0x000A, 0x000B, 0x000C, 0x000D, 0x0020, 0x00A0, 0x1680,
               0x2000, 0x2001, 0x2002, 0x2003, 0x2004, 0x2005, 0x2006, 0x2007,
               0x2008, 0x2009, 0x200A, 0x2028, 0x2029, 0x202F, 0x205F, 0x3000, 0xFEFF]"

definition trim :: "jsstring \<Rightarrow> jsstring" where
  "trim s = rev (dropWhile isWhiteSpace (rev (dropWhile isWhiteSpace s)))"

definition startsWith :: "jsstring \<Rightarrow> jsstring \<Rightarrow> bool" where
  "startsWith s p \<longleftrightarrow> take (length p) s = p"

text \<open>\<^verbatim>\<open>data.split("\n")\<close>: the empty string gives one empty line.\<close>

fun split_nl :: "jsstring \<Rightarrow> jsstring list" where
  "split_nl [] = [[]]"
| "split_nl (c # cs) =
     (if c = 0x000A then [] # split_nl cs
      else (case split_nl cs of [] \<Rightarrow> [[c]] | l # ls \<Rightarrow> (c # l) # ls))"

text \<open>\<^verbatim>\<open>lines.join("\n")\<close>: the empty array gives the empty string.\<close>

fun join_nl :: "jsstring list \<Rightarrow> jsstring" where
  "join_nl [] = []"
| "join_nl [l] = l"
| "join_nl (l # m # ls) = l @ 0x000A # join_nl (m # ls)"

text \<open>The predicate of \<^verbatim>\<open>lines.filter(line => ...)\<close>.\<close>

definition keep_line :: "jsstring \<Rightarrow> bool" where
  "keep_line ln \<longleftrightarrow>
     (let trimmed = trim ln in
        startsWith trimmed (lit ''Content-Length:'') \<or>
        startsWith trimmed (lit ''{'') \<or>
        trimmed = [])"

text \<open>
  \<^verbatim>\<open>transform(chunk, encoding, callback)\<close>: the result is the list of strings pushed
  downstream, none when \<^verbatim>\<open>filtered\<close> is the empty (falsy) string.
\<close>

definition transform :: "jsstring \<Rightarrow> jsstring list" where
  "transform chunk =
     (let data = chunk;
          lines = split_nl data;
          filtered = join_nl (filter keep_line lines)
      in if filtered \<noteq> [] then [filtered] else [])"

text \<open>The lines a chunk's output consists of, as a downstream reader splits them.\<close>

definition pushed_lines :: "jsstring \<Rightarrow> jsstring list" where
  "pushed_lines chunk = concat (map split_nl (transform chunk))"

text \<open>
  The classification as the filter's description words it: a line is kept when it is blank,
  begins with the frame-length header, or begins with an open brace (no trimming of the
  line before the two prefix tests).
\<close>

definition described_keep_line :: "jsstring \<Rightarrow> bool" where
  "described_keep_line ln \<longleftrightarrow>
     list_all isWhiteSpace ln \<or>
     startsWith ln (lit ''Content-Length:'') \<or>
     startsWith ln (lit ''{'')"


subsection \<open>Data exchanged with the language server\<close>

text \<open>
  A position of the language-server protocol. The requests carry \<^verbatim>\<open>args.line\<close> and
  \<^verbatim>\<open>args.character\<close> as the caller gave them (absent for a tool without them); the
  diagnostics carry the protocol's \<^verbatim>\<open>uinteger\<close>, a number from 0 to \<open>2\<^sup>3\<^sup>1 - 1\<close>.
\<close>

record 'n position =
  pos_line :: 'n
  pos_character :: 'n

record diag_range =
  range_start :: "31 word position"
  range_end :: "31 word position"

record diagnostic =
  severity :: "int option"
  diag_range :: diag_range
  message :: jsstring

record publishDiagnosticsParams =
  params_uri :: jsstring
  params_diagnostics :: "diagnostic list"

record textDocumentItem =
  uri :: jsstring
  languageId :: jsstring
  version :: nat
  doc_text :: jsstring

datatype params =
    InitializeParams "jsstring option"
  | InitializedParams
  | DidOpenTextDocumentParams textDocumentItem
  | TextDocumentPositionParams jsstring "int option position"
  | ReferenceParams jsstring "int option position" bool

text \<open>
  What the class does to the world outside, in order: spawning the server, reading a
  file, a notification or a request written to the connection, a timer, listing the
  extensions directory, and connecting the tool transport.
\<close>

datatype event =
    Spawn jsstring "jsstring list"
  | ReadFile jsstring
  | SendNotification jsstring params
  | SendRequest jsstring params
  | SetTimeout nat
  | ReadDirectory jsstring jsstring
  | Connect

subsection \<open>The server object\<close>

datatype process = ChildProcess jsstring "jsstring list"

datatype connection = MessageConnection

record server =
  lspProcess :: "process option"
  lspConnection :: "connection option"
  diagnosticsCache :: "jsstring \<rightharpoonup> diagnostic list"

text \<open>The constructor: no process, no connection, \<^verbatim>\<open>new Map()\<close>.\<close>

definition constructor :: server where
  "constructor = \<lparr>lspProcess = None, lspConnection = None, diagnosticsCache = Map.empty\<rparr>"

text \<open>The handler registered for \<^verbatim>\<open>textDocument/publishDiagnostics\<close>.\<close>

definition onPublishDiagnostics :: "publishDiagnosticsParams \<Rightarrow> server \<Rightarrow> server" where
  "onPublishDiagnostics ps srv =
     srv\<lparr>diagnosticsCache := (diagnosticsCache srv)(params_uri ps \<mapsto> params_diagnostics ps)\<rparr>"

text \<open>Notifications are handled one at a time, in arrival order.\<close>

definition deliver :: "publishDiagnosticsParams list \<Rightarrow> server \<Rightarrow> server" where
  "deliver pss srv = foldl (\<lambda>s ps. onPublishDiagnostics ps s) srv pss"

text \<open>\<^verbatim>\<open>this.diagnosticsCache.get(uri) || []\<close>\<close>

definition cached_diagnostics :: "server \<Rightarrow> jsstring \<Rightarrow> diagnostic list" where
  "cached_diagnostics srv u = (case diagnosticsCache srv u of None \<Rightarrow> [] | Some ds \<Rightarrow> ds)"

subsection \<open>Tool calls and their results\<close>

text \<open>
  The arguments object of a tool call, as the tools' input schemas declare it: \<^verbatim>\<open>file\<close>,
  and for the position tools \<^verbatim>\<open>line\<close> and \<^verbatim>\<open>character\<close>. An arguments object is taken to
  have a string \<^verbatim>\<open>file\<close>; \<^verbatim>\<open>line\<close> and \<^verbatim>\<open>character\<close> may be absent.
\<close>

record tool_args =
  arg_file :: jsstring
  arg_line :: "int option"
  arg_character :: "int option"

text \<open>
  \<^verbatim>\<open>request.params\<close> of a \<^verbatim>\<open>tools/call\<close>: the protocol makes \<^verbatim>\<open>arguments\<close> optional, and
  the dispatcher's \<^verbatim>\<open>Server\<close> does not check a call against the tool's input schema, so the
  handler may receive none.
\<close>

record call_request =
  name :: jsstring
  arguments :: "tool_args option"

record content_block =
  block_type :: jsstring
  block_text :: jsstring

text \<open>\<^verbatim>\<open>isError\<close> is \<^verbatim>\<open>None\<close> where the returned object has no such key.\<close>

record tool_result =
  content :: "content_block list"
  isError :: "bool option"

text \<open>
  A handler returns a result object, or lets an error escape to the SDK that called it, or
  stays suspended for ever at an \<^verbatim>\<open>await\<close> that never settles.
\<close>

datatype outcome = Returns tool_result | Throws jsstring | Pending

text \<open>
  The collaborators of one tool call: what \<^verbatim>\<open>fs.readFile\<close> gives for a path and what the
  connection gives for a notification or a request (\<^verbatim>\<open>Inl\<close> is the message of the error
  it rejects with; a request the server never answers is \<^verbatim>\<open>None\<close>, as no timer guards it),
  the diagnostics notifications handled while the call is in progress, and
  \<^verbatim>\<open>JSON.stringify(_, null, 2)\<close> on a request's result and on an array of diagnostics.
\<close>

record 'j collaborators =
  readFile :: "jsstring \<Rightarrow> jsstring + jsstring"
  sendNotification :: "jsstring \<Rightarrow> params \<Rightarrow> jsstring + unit"
  sendRequest :: "jsstring \<Rightarrow> params \<Rightarrow> (jsstring + 'j) option"
  published :: "publishDiagnosticsParams list"
  stringify :: "'j \<Rightarrow> jsstring"
  stringify_diagnostics :: "diagnostic list \<Rightarrow> jsstring"

text \<open>
  An asynchronous computation: its value or the message of the error thrown, or
  \<^verbatim>\<open>None\<close> when it stays suspended, and the events up to that point.
\<close>

type_synonym 'a attempt = "(jsstring + 'a) option \<times> event list"

definition succeed :: "'a \<Rightarrow> 'a attempt" where
  "succeed a = (Some (Inr a), [])"

definition throw :: "jsstring \<Rightarrow> 'a attempt" where
  "throw m = (Some (Inl m), [])"

definition await :: "event \<Rightarrow> (jsstring + 'a) option \<Rightarrow> 'a attempt" where
  "await e r = (r, [e])"

definition and_then :: "'a attempt \<Rightarrow> ('a \<Rightarrow> 'b attempt) \<Rightarrow> 'b attempt" where
  "and_then m f =
     (case m of
        (None, tr) \<Rightarrow> (None, tr)
      | (Some (Inl e), tr) \<Rightarrow> (Some (Inl e), tr)
      | (Some (Inr a), tr) \<Rightarrow> (case f a of (r, tr') \<Rightarrow> (r, tr @ tr')))"

definition text_result :: "jsstring \<Rightarrow> tool_result" where
  "text_result t = \<lparr>content = [\<lparr>block_type = lit ''text'', block_text = t\<rparr>], isError = None\<rparr>"

text \<open>The object the \<^verbatim>\<open>catch\<close> block returns for an error with the message \<open>m\<close>.\<close>

definition error_result :: "jsstring \<Rightarrow> tool_result" where
  "error_result m =
     \<lparr>content = [\<lparr>block_type = lit ''text'', block_text = lit ''Error: '' @ m\<rparr>],
      isError = Some True\<rparr>"

text \<open>\<^verbatim>\<open>try { ... } catch(error) { return ... }\<close> around a computation.\<close>

definition catch_error :: "tool_result attempt \<Rightarrow> outcome \<times> event list" where
  "catch_error m =
     (case m of
        (None, tr) \<Rightarrow> (Pending, tr)
      | (Some (Inl e), tr) \<Rightarrow> (Returns (error_result e), tr)
      | (Some (Inr r), tr) \<Rightarrow> (Returns r, tr))"

subsection \<open>The steps of a tool call\<close>

text \<open>\<^verbatim>\<open>const uri = `file://${args.file}`\<close>\<close>

definition document_uri :: "tool_args \<Rightarrow> jsstring" where
  "document_uri args = lit ''file://'' @ arg_file args"

text \<open>The parameters of \<^verbatim>\<open>textDocument/didOpen\<close> for a document and its content.\<close>

definition didOpen_params :: "jsstring \<Rightarrow> jsstring \<Rightarrow> params" where
  "didOpen_params u fileContent =
     DidOpenTextDocumentParams
       \<lparr>uri = u, languageId = lit ''lpc'', version = 1, doc_text = fileContent\<rparr>"

text \<open>Reading the file and sending \<^verbatim>\<open>textDocument/didOpen\<close>.\<close>

definition open_document :: "'j collaborators \<Rightarrow> jsstring \<Rightarrow> jsstring \<Rightarrow> unit attempt" where
  "open_document env path u =
     and_then (await (ReadFile path) (Some (readFile env path))) (\<lambda>fileContent.
       await (SendNotification (lit ''textDocument/didOpen'') (didOpen_params u fileContent))
         (Some (sendNotification env (lit ''textDocument/didOpen'') (didOpen_params u fileContent))))"

text \<open>A request whose result is returned as indented JSON text.\<close>

definition request_text :: "'j collaborators \<Rightarrow> jsstring \<Rightarrow> params \<Rightarrow> tool_result attempt" where
  "request_text env m ps =
     and_then (await (SendRequest m ps) (sendRequest env m ps)) (\<lambda>result.
       succeed (text_result (stringify env result)))"

text \<open>
  Decimal digits of a non-negative integer, as a template literal prints it. The numbers
  printed here are an array's length and a \<^verbatim>\<open>uinteger\<close> plus one, all below \<open>2\<^sup>3\<^sup>2\<close>, where
  the double arithmetic of JavaScript is exact and no exponent notation is used.
\<close>

fun show_nat :: "nat \<Rightarrow> jsstring" where
  "show_nat n =
     (if n < 10 then [of_nat (48 + n)]
      else show_nat (n div 10) @ [of_nat (48 + n mod 10)])"

declare show_nat.simps [simp del]

text \<open>\<^verbatim>\<open>["Error", "Warning", "Information", "Hint"][d.severity - 1] || "Unknown"\<close>\<close>

definition severity_label :: "int option \<Rightarrow> jsstring" where
  "severity_label s =
     (case s of
        None \<Rightarrow> lit ''Unknown''
      | Some n \<Rightarrow>
          if 1 \<le> n \<and> n \<le> 4
          then [lit ''Error'', lit ''Warning'', lit ''Information'', lit ''Hint''] ! nat (n - 1)
          else lit ''Unknown'')"

definition format_diagnostic :: "diagnostic \<Rightarrow> jsstring" where
  "format_diagnostic d =
     (let severity_name = severity_label (severity d);
          ln = unat (pos_line (range_start (diag_range d))) + 1;
          ch = unat (pos_character (range_start (diag_range d))) + 1
      in lit ''['' @ severity_name @ lit ''] Line '' @ show_nat ln @ lit '':'' @ show_nat ch
         @ lit '' - '' @ message d)"

text \<open>
  The diagnostics case: the grace period, then the cache as the notifications handled in
  the meantime left it.
\<close>

definition diagnostics_report :: "'j collaborators \<Rightarrow> server \<Rightarrow> jsstring \<Rightarrow> tool_result attempt" where
  "diagnostics_report env srv u =
     and_then (await (SetTimeout 500) (Some (Inr ()))) (\<lambda>_.
       let diagnostics = cached_diagnostics (deliver (published env) srv) u
       in if length diagnostics = 0
          then succeed (text_result
                 (lit ''No diagnostics found for this file. The code appears to be valid.''))
          else
            let formatted = join_nl (map format_diagnostic diagnostics)
            in succeed (text_result
                 (lit ''Found '' @ show_nat (length diagnostics) @ lit '' diagnostic(s):''
                  @ [0x000A, 0x000A] @ formatted @ [0x000A, 0x000A] @ lit ''Raw diagnostics:''
                  @ [0x000A] @ stringify_diagnostics env diagnostics)))"

definition position_of :: "tool_args \<Rightarrow> int option position" where
  "position_of args = \<lparr>pos_line = arg_line args, pos_character = arg_character args\<rparr>"

subsection \<open>The dispatcher of \<^verbatim>\<open>src/index.js\<close>\<close>

text \<open>The \<^verbatim>\<open>switch(name)\<close> statement.\<close>

definition switch_name :: "'j collaborators \<Rightarrow> server \<Rightarrow> jsstring \<Rightarrow> tool_args \<Rightarrow> jsstring \<Rightarrow> tool_result attempt" where
  "switch_name env srv nm args u =
     (if nm = lit ''lpc_hover'' then
        request_text env (lit ''textDocument/hover'')
          (TextDocumentPositionParams u (position_of args))
      else if nm = lit ''lpc_definition'' then
        request_text env (lit ''textDocument/definition'')
          (TextDocumentPositionParams u (position_of args))
      else if nm = lit ''lpc_references'' then
        request_text env (lit ''textDocument/references'')
          (ReferenceParams u (position_of args) True)
      else if nm = lit ''lpc_diagnostics'' then
        diagnostics_report env srv u
      else throw (lit ''Unknown tool: '' @ nm))"

text \<open>The body of \<^verbatim>\<open>try\<close>: the document is opened, whatever the name, then the switch.\<close>

definition callTool_try :: "'j collaborators \<Rightarrow> server \<Rightarrow> jsstring \<Rightarrow> tool_args \<Rightarrow> jsstring \<Rightarrow> tool_result attempt" where
  "callTool_try env srv nm args u =
     and_then (open_document env (arg_file args) u) (\<lambda>_. switch_name env srv nm args u)"

text \<open>
  The message of the TypeError that reading \<^verbatim>\<open>args.file\<close> raises when \<^verbatim>\<open>args\<close> is
  \<^verbatim>\<open>undefined\<close> (the wording of V8 in Node 16 and later).
\<close>

definition no_arguments_message :: jsstring where
  "no_arguments_message = lit ''Cannot read properties of undefined (reading 'file')''"

text \<open>
  The handler of \<^verbatim>\<open>CallToolRequestSchema\<close>: the guard and the computation of \<^verbatim>\<open>uri\<close>
  stand before \<^verbatim>\<open>try\<close>, so neither the guard's error nor the TypeError of a call without
  arguments is caught.
\<close>

definition callTool :: "'j collaborators \<Rightarrow> server \<Rightarrow> call_request \<Rightarrow> outcome \<times> event list" where
  "callTool env srv request =
     (let nm = name request
      in if lspConnection srv = None then (Throws (lit ''LSP not initialized''), [])
         else
           (case arguments request of
              None \<Rightarrow> (Throws no_arguments_message, [])
            | Some args \<Rightarrow>
                let u = document_uri args
                in catch_error (callTool_try env srv nm args u)))"

subsection \<open>The handlers of the registerTool variant\<close>

text \<open>
  \<^verbatim>\<open>McpServer\<close> checks a call against the tool's input schema before it calls the handler,
  which therefore always receives the arguments object.
\<close>

definition lpc_hover :: "'j collaborators \<Rightarrow> server \<Rightarrow> tool_args \<Rightarrow> outcome \<times> event list" where
  "lpc_hover env srv args =
     (if lspConnection srv = None then (Throws (lit ''LSP not initialized''), [])
      else
        let u = document_uri args
        in catch_error
             (and_then (open_document env (arg_file args) u) (\<lambda>_.
                request_text env (lit ''textDocument/hover'')
                  (TextDocumentPositionParams u (position_of args)))))"

definition lpc_definition :: "'j collaborators \<Rightarrow> server \<Rightarrow> tool_args \<Rightarrow> outcome \<times> event list" where
  "lpc_definition env srv args =
     (if lspConnection srv = None then (Throws (lit ''LSP not initialized''), [])
      else
        let u = document_uri args
        in catch_error
             (and_then (open_document env (arg_file args) u) (\<lambda>_.
                request_text env (lit ''textDocument/definition'')
                  (TextDocumentPositionParams u (position_of args)))))"

definition lpc_references :: "'j collaborators \<Rightarrow> server \<Rightarrow> tool_args \<Rightarrow> outcome \<times> event list" where
  "lpc_references env srv args =
     (if lspConnection srv = None then (Throws (lit ''LSP not initialized''), [])
      else
        let u = document_uri args
        in catch_error
             (and_then (open_document env (arg_file args) u) (\<lambda>_.
                request_text env (lit ''textDocument/references'')
                  (ReferenceParams u (position_of args) True))))"

definition lpc_diagnostics :: "'j collaborators \<Rightarrow> server \<Rightarrow> tool_args \<Rightarrow> outcome \<times> event list" where
  "lpc_diagnostics env srv args =
     (if lspConnection srv = None then (Throws (lit ''LSP not initialized''), [])
      else
        let u = document_uri args
        in catch_error
             (and_then (open_document env (arg_file args) u) (\<lambda>_.
                diagnostics_report env srv u)))"

subsection \<open>Starting the language server\<close>

text \<open>
  The answer to the \<^verbatim>\<open>initialize\<close> request: a result or an error response after so
  many milliseconds, or nothing at all.
\<close>

datatype 'j reply = Responds nat 'j | Rejects nat jsstring | Silent

text \<open>
  What \<^verbatim>\<open>startLSP\<close> meets: the environment variables, \<^verbatim>\<open>path.join\<close>, the directories the
  extensions directory lists for \<^verbatim>\<open>jlchmura.lpc-*\<close> (registerTool variant only), the answer
  to \<^verbatim>\<open>initialize\<close> and the outcome of sending \<^verbatim>\<open>initialized\<close>.
\<close>

record 'j startup =
  HOME :: jsstring
  LPC_WORKSPACE_ROOT :: "jsstring option"
  path_join :: "jsstring list \<Rightarrow> jsstring"
  directories :: "jsstring + jsstring list"
  initialize_reply :: "'j reply"
  initialized_sent :: "jsstring + unit"

text \<open>
  \<^verbatim>\<open>Promise.race\<close> of the request against a timer that rejects with the message \<open>m\<close>
  after \<open>ms\<close> milliseconds: the first to settle decides, and a timer that is due runs before
  a response read in the same turn of the event loop. The race always settles.
\<close>

definition race_timeout :: "'j reply \<Rightarrow> nat \<Rightarrow> jsstring \<Rightarrow> jsstring + 'j" where
  "race_timeout r ms m =
     (case r of
        Responds t x \<Rightarrow> if t < ms then Inr x else Inl m
      | Rejects t e \<Rightarrow> if t < ms then Inl e else Inl m
      | Silent \<Rightarrow> Inl m)"

text \<open>
  The workspace root of the environment, absent or empty meaning none. The handshake
  stands inside \<^verbatim>\<open>try\<close>; the \<^verbatim>\<open>catch\<close> logs the error and throws it again.
\<close>

definition rootUri :: "'j startup \<Rightarrow> jsstring option" where
  "rootUri w =
     (let workspaceRoot =
            (case LPC_WORKSPACE_ROOT w of None \<Rightarrow> None | Some r \<Rightarrow> if r = [] then None else Some r)
      in map_option (\<lambda>r. lit ''file://'' @ r) workspaceRoot)"

definition handshake :: "'j startup \<Rightarrow> unit attempt" where
  "handshake w =
     and_then
       (and_then
          (await (SendRequest (lit ''initialize'') (InitializeParams (rootUri w))) (Some (Inr ())))
          (\<lambda>_. await (SetTimeout 5000)
                 (Some (race_timeout (initialize_reply w) 5000 (lit ''LSP init timeout'')))))
       (\<lambda>initResult.
          await (SendNotification (lit ''initialized'') InitializedParams)
            (Some (initialized_sent w)))"

text \<open>Spawning the server at \<open>lspPath\<close>, creating the connection, and the handshake.\<close>

definition spawn_and_initialize :: "'j startup \<Rightarrow> jsstring \<Rightarrow> server \<Rightarrow> unit attempt \<times> server" where
  "spawn_and_initialize w lspPath srv =
     (let srv1 = srv\<lparr>lspProcess := Some (ChildProcess (lit ''node'') [lspPath, lit ''--stdio''])\<rparr>;
          srv2 = srv1\<lparr>lspConnection := Some MessageConnection\<rparr>
      in (and_then (await (Spawn (lit ''node'') [lspPath, lit ''--stdio'']) (Some (Inr ())))
            (\<lambda>_. handshake w),
          srv2))"

text \<open>\<^verbatim>\<open>startLSP\<close> of \<^verbatim>\<open>src/index.js\<close>: the path of the extension is fixed.\<close>

definition startLSP :: "'j startup \<Rightarrow> server \<Rightarrow> unit attempt \<times> server" where
  "startLSP w srv =
     (let lspPath = path_join w
            [HOME w, lit ''.vscode/extensions/jlchmura.lpc-1.1.42/out/server/src/server.js'']
      in spawn_and_initialize w lspPath srv)"

text \<open>
  \<^verbatim>\<open>startLSP\<close> of the registerTool variant: the newest \<^verbatim>\<open>jlchmura.lpc-*\<close> directory, the
  last in the order of \<^verbatim>\<open>sort()\<close> (code units, lexicographically).
\<close>

definition startLSP_latest :: "'j startup \<Rightarrow> server \<Rightarrow> unit attempt \<times> server" where
  "startLSP_latest w srv =
     (let extensionsDir = path_join w [HOME w, lit ''.vscode/extensions'']
      in case directories w of
           Inl e \<Rightarrow>
             (await (ReadDirectory extensionsDir (lit ''jlchmura.lpc-*'')) (Some (Inl e)), srv)
         | Inr ds \<Rightarrow>
             if length ds = 0
             then (and_then
                     (await (ReadDirectory extensionsDir (lit ''jlchmura.lpc-*'')) (Some (Inr ())))
                     (\<lambda>_. throw (lit (''LPC language server extension not found. '' @
                                        ''Please install the jlchmura.lpc extension.''))),
                   srv)
             else
               let latestExtension = hd (rev (sort ds));
                   lspPath = path_join w
                     [extensionsDir, latestExtension, lit ''out/server/src/server.js''];
                   started = spawn_and_initialize w lspPath srv
               in (and_then
                     (await (ReadDirectory extensionsDir (lit ''jlchmura.lpc-*'')) (Some (Inr ())))
                     (\<lambda>_. fst started),
                   snd started))"

text \<open>
  \<^verbatim>\<open>run\<close>: the tool transport is connected once \<^verbatim>\<open>startLSP\<close> has returned; an error of
  \<^verbatim>\<open>startLSP\<close> rejects \<^verbatim>\<open>run\<close>, and \<^verbatim>\<open>server.run().catch(console.error)\<close> logs it.
\<close>

definition connect_after :: "unit attempt \<times> server \<Rightarrow> unit attempt \<times> server" where
  "connect_after started =
     (and_then (fst started) (\<lambda>_. await Connect (Some (Inr ()))), snd started)"

definition run :: "'j startup \<Rightarrow> server \<Rightarrow> unit attempt \<times> server" where
  "run w srv = connect_after (startLSP w srv)"

definition run_latest :: "'j startup \<Rightarrow> server \<Rightarrow> unit attempt \<times> server" where
  "run_latest w srv = connect_after (startLSP_latest w srv)"


subsection \<open>Sequences of calls, and what is read off a run\<close>

text \<open>
  Tool calls served one after another, each with its own collaborators; the cache a call
  starts from is the one the notifications handled during the earlier calls left.
\<close>

fun session :: "server \<Rightarrow> ('j collaborators \<times> call_request) list \<Rightarrow> (outcome \<times> event list) list" where
  "session srv [] = []"
| "session srv (c # cs) =
     callTool (fst c) srv (snd c) # session (deliver (published (fst c)) srv) cs"

fun is_request :: "event \<Rightarrow> bool" where
  "is_request (SendRequest m ps) = True"
| "is_request e = False"

definition sent_requests :: "event list \<Rightarrow> event list" where
  "sent_requests tr = filter is_request tr"

fun opened_version :: "event \<Rightarrow> nat list" where
  "opened_version (SendNotification m (DidOpenTextDocumentParams d)) = [version d]"
| "opened_version e = []"

text \<open>The versions of the document-open notifications of a run, in order.\<close>

definition opened_versions :: "event list \<Rightarrow> nat list" where
  "opened_versions tr = concat (map opened_version tr)"

text \<open>Whether the answer to \<^verbatim>\<open>initialize\<close> arrives within \<open>ms\<close> milliseconds.\<close>

fun arrives_within :: "'j reply \<Rightarrow> nat \<Rightarrow> bool" where
  "arrives_within (Responds t x) ms = (t \<le> ms)"
| "arrives_within (Rejects t e) ms = (t \<le> ms)"
| "arrives_within Silent ms = False"

subsection \<open>Scenario data\<close>

text \<open>A server whose connection exists, with an empty cache.\<close>

definition ready :: server where
  "ready = constructor
     \<lparr>lspProcess := Some (ChildProcess (lit ''node'') [lit ''server.js'', lit ''--stdio'']),
      lspConnection := Some MessageConnection\<rparr>"

text \<open>
  Collaborators that answer everything: the file is readable, the server accepts. In place
  of \<^verbatim>\<open>JSON.stringify\<close>, each diagnostic is printed as its start position as received,
  \<^verbatim>\<open>line:character\<close>.
\<close>

definition answering :: "jsstring collaborators" where
  "answering =
     \<lparr>readFile = (\<lambda>p. Inr (lit ''inherit ROOM;'')),
      sendNotification = (\<lambda>m ps. Inr ()),
      sendRequest = (\<lambda>m ps. Some (Inr (lit ''null''))),
      published = [],
      stringify = (\<lambda>j. j),
      stringify_diagnostics =
        (\<lambda>ds. concat (map (\<lambda>d. show_nat (unat (pos_line (range_start (diag_range d)))) @ lit '':''
                                 @ show_nat (unat (pos_character (range_start (diag_range d))))) ds))\<rparr>"

definition room_args :: tool_args where
  "room_args = \<lparr>arg_file = lit ''/m/room.c'', arg_line = Some 4, arg_character = Some 10\<rparr>"

definition hover_room :: call_request where
  "hover_room = \<lparr>name = lit ''lpc_hover'', arguments = Some room_args\<rparr>"

text \<open>One Error-severity issue at line 2, character 3.\<close>

definition undefined_symbol :: "31 word position \<Rightarrow> diagnostic" where
  "undefined_symbol e =
     \<lparr>severity = Some 1,
      diag_range = \<lparr>range_start = \<lparr>pos_line = 2, pos_character = 3\<rparr>, range_end = e\<rparr>,
      message = lit ''undefined symbol''\<rparr>"

text \<open>A start-up in which the server never answers \<^verbatim>\<open>initialize\<close>.\<close>

definition silent_startup :: "jsstring startup" where
  "silent_startup =
     \<lparr>HOME = lit ''/home/u'',
      LPC_WORKSPACE_ROOT = Some (lit ''/m''),
      path_join = (\<lambda>ps. foldr (\<lambda>p q. if q = [] then p else p @ lit ''/'' @ q) ps []),
      directories = Inr [lit ''jlchmura.lpc-1.1.42'', lit ''jlchmura.lpc-1.1.9''],
      initialize_reply = Silent,
      initialized_sent = Inr ()\<rparr>"

text \<open>A start-up in which the server answers after 120 ms.\<close>

definition prompt_startup :: "jsstring startup" where
  "prompt_startup = silent_startup\<lparr>initialize_reply := Responds 120 (lit ''{}'')\<rparr>"

subsection \<open>Facts about splitting and joining\<close>

lemma split_nl_not_Nil: "split_nl s \<noteq> []"
  by (induction s) (auto split: list.splits)

lemma split_nl_newline_free: "l \<in> set (split_nl s) \<Longrightarrow> 0x000A \<notin> set l"
proof (induction s arbitrary: l)
  case Nil
  then show ?case by simp
next
  case (Cons c cs)
  show ?case
  proof (cases "c = 0x000A")
    case True
    with Cons show ?thesis by auto
  next
    case False
    obtain h t where ht: "split_nl cs = h # t"
      using split_nl_not_Nil [of cs] by (cases "split_nl cs") auto
    with False Cons.prems have "l = c # h \<or> l \<in> set t" by simp
    then show ?thesis
    proof
      assume "l = c # h"
      moreover have "0x000A \<notin> set h" using Cons.IH [of h] ht by simp
      ultimately show ?thesis using False by auto
    next
      assume "l \<in> set t"
      then show ?thesis using Cons.IH [of l] ht by simp
    qed
  qed
qed

lemma split_nl_single: "0x000A \<notin> set l \<Longrightarrow> split_nl l = [l]"
  by (induction l) auto

lemma split_nl_append: "0x000A \<notin> set l \<Longrightarrow> split_nl (l @ 0x000A # r) = l # split_nl r"
  by (induction l) auto

lemma split_join_nl:
  "ls \<noteq> [] \<Longrightarrow> (\<And>l. l \<in> set ls \<Longrightarrow> 0x000A \<notin> set l) \<Longrightarrow> split_nl (join_nl ls) = ls"
proof (induction ls rule: join_nl.induct)
  case 1
  then show ?case by simp
next
  case (2 l)
  then show ?case by (simp add: split_nl_single)
next
  case (3 l m ls)
  have "split_nl (join_nl (m # ls)) = m # ls"
    using 3 by simp
  moreover have "0x000A \<notin> set l"
    using 3 by simp
  ultimately show ?case
    by (simp add: split_nl_append)
qed

lemma join_split_nl: "join_nl (split_nl s) = s"
proof (induction s)
  case Nil
  then show ?case by simp
next
  case (Cons c cs)
  obtain h t where ht: "split_nl cs = h # t"
    using split_nl_not_Nil [of cs] by (cases "split_nl cs") auto
  with Cons show ?case
    by (cases t) auto
qed

lemma pushed_lines_filter:
  "pushed_lines chunk =
     (let kept = filter keep_line (split_nl chunk)
      in if join_nl kept = [] then [] else kept)"
proof -
  define kept where "kept = filter keep_line (split_nl chunk)"
  have free: "\<And>l. l \<in> set kept \<Longrightarrow> 0x000A \<notin> set l"
    unfolding kept_def using split_nl_newline_free [of _ chunk] by simp
  show ?thesis
  proof (cases "join_nl kept = []")
    case True
    then show ?thesis
      by (simp add: pushed_lines_def transform_def kept_def)
  next
    case False
    then have "kept \<noteq> []" by auto
    then have "split_nl (join_nl kept) = kept"
      using free by (rule split_join_nl)
    with False show ?thesis
      by (simp add: pushed_lines_def transform_def kept_def Let_def)
  qed
qed

lemma join_nl_empty_iff: "join_nl ls = [] \<longleftrightarrow> ls = [] \<or> ls = [[]]"
  by (induction ls rule: join_nl.induct) auto

subsection \<open>Facts about the diagnostics cache\<close>

lemma deliver_Nil [simp]: "deliver [] srv = srv"
  by (simp add: deliver_def)

lemma deliver_Cons [simp]: "deliver (ps # pss) srv = deliver pss (onPublishDiagnostics ps srv)"
  by (simp add: deliver_def)


lemma lspConnection_onPublishDiagnostics [simp]:
  "lspConnection (onPublishDiagnostics ps srv) = lspConnection srv"
  by (simp add: onPublishDiagnostics_def)

lemma lspConnection_deliver [simp]: "lspConnection (deliver pss srv) = lspConnection srv"
  by (induction pss arbitrary: srv) simp_all

lemma cached_onPublishDiagnostics:
  "cached_diagnostics (onPublishDiagnostics ps srv) u =
     (if u = params_uri ps then params_diagnostics ps else cached_diagnostics srv u)"
  by (simp add: cached_diagnostics_def onPublishDiagnostics_def)

lemma cached_deliver_other:
  "u \<notin> params_uri ` set pss \<Longrightarrow> cached_diagnostics (deliver pss srv) u = cached_diagnostics srv u"
  by (induction pss arbitrary: srv) (auto simp: cached_onPublishDiagnostics)

subsection \<open>Facts about the handlers\<close>

lemma and_then_None [simp]: "and_then (None, tr) f = (None, tr)"
  by (simp add: and_then_def)

lemma and_then_Inl [simp]: "and_then (Some (Inl e), tr) f = (Some (Inl e), tr)"
  by (simp add: and_then_def)

lemma and_then_Inr [simp]: "and_then (Some (Inr a), tr) f = (fst (f a), tr @ snd (f a))"
  by (simp add: and_then_def split: prod.splits)

lemma open_document_unreadable:
  "readFile env p = Inl m \<Longrightarrow> open_document env p u = (Some (Inl m), [ReadFile p])"
  by (simp add: open_document_def await_def)

lemma open_document_read:
  "readFile env p = Inr c \<Longrightarrow>
   open_document env p u =
     (Some (sendNotification env (lit ''textDocument/didOpen'') (didOpen_params u c)),
      [ReadFile p, SendNotification (lit ''textDocument/didOpen'') (didOpen_params u c)])"
  by (simp add: open_document_def await_def)

lemma request_text_eq:
  "request_text env m ps =
     (case sendRequest env m ps of
        None \<Rightarrow> (None, [SendRequest m ps])
      | Some (Inl e) \<Rightarrow> (Some (Inl e), [SendRequest m ps])
      | Some (Inr r) \<Rightarrow> (Some (Inr (text_result (stringify env r))), [SendRequest m ps]))"
  by (simp add: request_text_def await_def succeed_def split: sum.splits option.splits)

lemma snd_request_text [simp]: "snd (request_text env m ps) = [SendRequest m ps]"
  by (simp add: request_text_eq split: sum.splits option.splits)

lemma snd_diagnostics_report [simp]: "snd (diagnostics_report env srv u) = [SetTimeout 500]"
  by (simp add: diagnostics_report_def await_def succeed_def Let_def)

lemma tool_names_distinct:
  "lit ''lpc_definition'' \<noteq> lit ''lpc_hover''"
  "lit ''lpc_references'' \<noteq> lit ''lpc_hover''"
  "lit ''lpc_references'' \<noteq> lit ''lpc_definition''"
  "lit ''lpc_diagnostics'' \<noteq> lit ''lpc_hover''"
  "lit ''lpc_diagnostics'' \<noteq> lit ''lpc_definition''"
  "lit ''lpc_diagnostics'' \<noteq> lit ''lpc_references''"
  by (simp_all add: lit_def)

lemma switch_name_hover [simp]:
  "switch_name env srv (lit ''lpc_hover'') args u =
     request_text env (lit ''textDocument/hover'') (TextDocumentPositionParams u (position_of args))"
  by (simp add: switch_name_def)

lemma switch_name_definition [simp]:
  "switch_name env srv (lit ''lpc_definition'') args u =
     request_text env (lit ''textDocument/definition'') (TextDocumentPositionParams u (position_of args))"
  by (simp add: switch_name_def tool_names_distinct)

lemma switch_name_references [simp]:
  "switch_name env srv (lit ''lpc_references'') args u =
     request_text env (lit ''textDocument/references'') (ReferenceParams u (position_of args) True)"
  by (simp add: switch_name_def tool_names_distinct)

lemma switch_name_diagnostics [simp]:
  "switch_name env srv (lit ''lpc_diagnostics'') args u = diagnostics_report env srv u"
  by (simp add: switch_name_def tool_names_distinct)

lemma callTool_hover:
  "callTool env srv \<lparr>name = lit ''lpc_hover'', arguments = Some args\<rparr> = lpc_hover env srv args"
  by (simp add: callTool_def lpc_hover_def callTool_try_def Let_def)

lemma callTool_definition:
  "callTool env srv \<lparr>name = lit ''lpc_definition'', arguments = Some args\<rparr> =
     lpc_definition env srv args"
  by (simp add: callTool_def lpc_definition_def callTool_try_def Let_def)

lemma callTool_references:
  "callTool env srv \<lparr>name = lit ''lpc_references'', arguments = Some args\<rparr> =
     lpc_references env srv args"
  by (simp add: callTool_def lpc_references_def callTool_try_def Let_def)

lemma callTool_diagnostics:
  "callTool env srv \<lparr>name = lit ''lpc_diagnostics'', arguments = Some args\<rparr> =
     lpc_diagnostics env srv args"
  by (simp add: callTool_def lpc_diagnostics_def callTool_try_def Let_def)

lemma callTool_not_initialized:
  "lspConnection srv = None \<Longrightarrow> callTool env srv rq = (Throws (lit ''LSP not initialized''), [])"
  by (simp add: callTool_def)

lemma callTool_no_arguments:
  "lspConnection srv \<noteq> None \<Longrightarrow> arguments rq = None \<Longrightarrow>
   callTool env srv rq = (Throws no_arguments_message, [])"
  by (auto simp: callTool_def Let_def)

lemma callTool_initialized:
  "lspConnection srv \<noteq> None \<Longrightarrow> arguments rq = Some args \<Longrightarrow>
   callTool env srv rq = catch_error (callTool_try env srv (name rq) args (document_uri args))"
  by (auto simp: callTool_def Let_def)

lemma fst_catch_error:
  "fst (catch_error a) =
     (case fst a of
        None \<Rightarrow> Pending
      | Some (Inl e) \<Rightarrow> Returns (error_result e)
      | Some (Inr r) \<Rightarrow> Returns r)"
  by (cases a) (simp add: catch_error_def split: sum.splits option.splits)

lemma snd_catch_error [simp]: "snd (catch_error a) = snd a"
  by (cases a) (simp add: catch_error_def split: sum.splits option.splits)

lemma snd_switch_name:
  "snd (switch_name env srv nm args u) =
     (if nm = lit ''lpc_hover'' then
        [SendRequest (lit ''textDocument/hover'') (TextDocumentPositionParams u (position_of args))]
      else if nm = lit ''lpc_definition'' then
        [SendRequest (lit ''textDocument/definition'') (TextDocumentPositionParams u (position_of args))]
      else if nm = lit ''lpc_references'' then
        [SendRequest (lit ''textDocument/references'') (ReferenceParams u (position_of args) True)]
      else if nm = lit ''lpc_diagnostics'' then [SetTimeout 500]
      else [])"
  by (simp add: switch_name_def throw_def)

text \<open>The events and the outcome of a call with a connection and arguments, in full.\<close>

lemma callTool_events:
  "lspConnection srv \<noteq> None \<Longrightarrow> arguments rq = Some args \<Longrightarrow>
   snd (callTool env srv rq) =
     (case readFile env (arg_file args) of
        Inl m \<Rightarrow> [ReadFile (arg_file args)]
      | Inr c \<Rightarrow>
          [ReadFile (arg_file args),
           SendNotification (lit ''textDocument/didOpen'') (didOpen_params (document_uri args) c)] @
          (case sendNotification env (lit ''textDocument/didOpen'')
                  (didOpen_params (document_uri args) c) of
             Inl m \<Rightarrow> []
           | Inr x \<Rightarrow> snd (switch_name env srv (name rq) args (document_uri args))))"
  by (simp add: callTool_initialized callTool_try_def open_document_unreadable open_document_read
      split: sum.splits)

lemma callTool_outcome:
  "lspConnection srv \<noteq> None \<Longrightarrow> arguments rq = Some args \<Longrightarrow>
   fst (callTool env srv rq) =
     (case readFile env (arg_file args) of
        Inl m \<Rightarrow> Returns (error_result m)
      | Inr c \<Rightarrow>
          (case sendNotification env (lit ''textDocument/didOpen'')
                  (didOpen_params (document_uri args) c) of
             Inl m \<Rightarrow> Returns (error_result m)
           | Inr x \<Rightarrow>
              (case fst (switch_name env srv (name rq) args (document_uri args)) of
                 None \<Rightarrow> Pending
               | Some (Inl m) \<Rightarrow> Returns (error_result m)
               | Some (Inr r) \<Rightarrow> Returns r)))"
  by (simp add: callTool_initialized callTool_try_def open_document_unreadable open_document_read
      fst_catch_error split: sum.splits option.splits)

subsection \<open>Facts about the versions sent\<close>

lemma opened_versions_Nil [simp]: "opened_versions [] = []"
  by (simp add: opened_versions_def)

lemma opened_versions_Cons [simp]:
  "opened_versions (e # es) = opened_version e @ opened_versions es"
  by (simp add: opened_versions_def)

lemma opened_versions_append [simp]:
  "opened_versions (xs @ ys) = opened_versions xs @ opened_versions ys"
  by (simp add: opened_versions_def)

lemma opened_versions_switch_name [simp]:
  "opened_versions (snd (switch_name env srv nm args u)) = []"
  by (simp add: snd_switch_name)

lemma opened_versions_callTool:
  "list_all (\<lambda>v. v = 1) (opened_versions (snd (callTool env srv rq)))"
proof (cases "lspConnection srv = None")
  case True
  then show ?thesis
    by (simp add: callTool_not_initialized)
next
  case False
  show ?thesis
  proof (cases "arguments rq")
    case None
    with False show ?thesis
      by (simp add: callTool_no_arguments)
  next
    case (Some args)
    with False show ?thesis
      by (simp add: callTool_events didOpen_params_def split: sum.splits)
  qed
qed

lemma opened_versions_session:
  "list_all (\<lambda>v. v = 1) (opened_versions (concat (map snd (session srv calls))))"
proof (induction calls arbitrary: srv)
  case Nil
  then show ?case by simp
next
  case (Cons c cs)
  then show ?case
    by (simp add: opened_versions_callTool del: One_nat_def)
qed

lemma session_two_hovers:
  "opened_versions (concat (map snd (session ready [(answering, hover_room), (answering, hover_room)]))) = [1, 1]"
proof -
  have conn: "lspConnection ready \<noteq> None"
    by (simp add: ready_def constructor_def)
  have args: "arguments hover_room = Some room_args"
    by (simp add: hover_room_def)
  have "opened_versions (snd (callTool answering ready hover_room)) = [1]"
    by (simp add: callTool_events [OF conn args] answering_def didOpen_params_def)
  then show ?thesis
    by (simp add: answering_def)
qed

subsection \<open>Facts about outcomes, requests and sessions\<close>



lemma fst_diagnostics_report:
  "fst (diagnostics_report env srv u) =
     Some (Inr
       (let diagnostics = cached_diagnostics (deliver (published env) srv) u
        in if length diagnostics = 0
           then text_result
                  (lit ''No diagnostics found for this file. The code appears to be valid.'')
           else text_result
                  (lit ''Found '' @ show_nat (length diagnostics) @ lit '' diagnostic(s):''
                   @ [0x000A, 0x000A] @ join_nl (map format_diagnostic diagnostics)
                   @ [0x000A, 0x000A] @ lit ''Raw diagnostics:''
                   @ [0x000A] @ stringify_diagnostics env diagnostics)))"
  by (simp add: diagnostics_report_def await_def succeed_def Let_def)


lemma sent_requests_Nil [simp]: "sent_requests [] = []"
  by (simp add: sent_requests_def)

lemma sent_requests_Cons [simp]:
  "sent_requests (e # es) = (if is_request e then e # sent_requests es else sent_requests es)"
  by (simp add: sent_requests_def)

lemma sent_requests_append [simp]:
  "sent_requests (xs @ ys) = sent_requests xs @ sent_requests ys"
  by (simp add: sent_requests_def)





lemma callTool_references_requests:
  "lspConnection srv \<noteq> None \<Longrightarrow>
   sent_requests (snd (callTool env srv \<lparr>name = lit ''lpc_references'', arguments = Some args\<rparr>)) =
     (case readFile env (arg_file args) of
        Inl m \<Rightarrow> []
      | Inr c \<Rightarrow>
          (case sendNotification env (lit ''textDocument/didOpen'')
                  (didOpen_params (document_uri args) c) of
             Inl m \<Rightarrow> []
           | Inr x \<Rightarrow>
               [SendRequest (lit ''textDocument/references'')
                  (ReferenceParams (document_uri args) (position_of args) True)]))"
  by (simp add: callTool_events [where args = args] split: sum.splits)


lemma show_nat_digit: "n < 10 \<Longrightarrow> show_nat n = [of_nat (48 + n)]"
  by (simp add: show_nat.simps)

lemma format_undefined_symbol:
  "format_diagnostic (undefined_symbol e) = lit ''[Error] Line 3:4 - undefined symbol''"
  by (simp add: format_diagnostic_def undefined_symbol_def severity_label_def show_nat_digit lit_def)

subsection \<open>Facts about the handshake\<close>

lemma race_timeout_late:
  "\<not> arrives_within r ms \<Longrightarrow> race_timeout r ms m = Inl m"
  by (cases r) (simp_all add: race_timeout_def)

lemma handshake_timeout:
  "\<not> arrives_within (initialize_reply w) 5000 \<Longrightarrow>
   handshake w =
     (Some (Inl (lit ''LSP init timeout'')),
      [SendRequest (lit ''initialize'') (InitializeParams (rootUri w)), SetTimeout 5000])"
  by (simp add: handshake_def await_def race_timeout_late)

lemma spawn_and_initialize_timeout:
  "\<not> arrives_within (initialize_reply w) 5000 \<Longrightarrow>
   fst (spawn_and_initialize w lspPath srv) =
     (Some (Inl (lit ''LSP init timeout'')),
      [Spawn (lit ''node'') [lspPath, lit ''--stdio''],
       SendRequest (lit ''initialize'') (InitializeParams (rootUri w)), SetTimeout 5000])"
  by (simp add: spawn_and_initialize_def await_def handshake_timeout Let_def)

lemma and_then_events_prefix:
  "Connect \<in> set (snd (and_then a (\<lambda>_. await Connect (Some (Inr ()))))) \<Longrightarrow>
   Connect \<notin> set (snd a) \<Longrightarrow> fst a = Some (Inr ())"
  by (cases a) (auto simp: and_then_def await_def split: option.splits sum.splits)

lemma handshake_no_Connect: "Connect \<notin> set (snd (handshake w))"
  by (auto simp: handshake_def and_then_def await_def split: sum.splits prod.splits option.splits)

lemma spawn_and_initialize_no_Connect: "Connect \<notin> set (snd (fst (spawn_and_initialize w p srv)))"
  using handshake_no_Connect [of w]
  by (simp add: spawn_and_initialize_def await_def Let_def)

lemma lspConnection_spawn_and_initialize [simp]:
  "lspConnection (snd (spawn_and_initialize w p srv)) = Some MessageConnection"
  by (simp add: spawn_and_initialize_def Let_def)

lemma startLSP_latest_no_Connect: "Connect \<notin> set (snd (fst (startLSP_latest w srv)))"
proof (cases "directories w")
  case (Inl e)
  then show ?thesis
    by (simp add: startLSP_latest_def await_def Let_def)
next
  case (Inr ds)
  show ?thesis
  proof (cases "ds = []")
    case True
    with Inr show ?thesis
      by (simp add: startLSP_latest_def await_def throw_def Let_def)
  next
    case False
    with Inr show ?thesis
      by (simp add: startLSP_latest_def await_def Let_def spawn_and_initialize_no_Connect)
  qed
qed

lemma startLSP_latest_success:
  "fst (fst (startLSP_latest w srv)) = Some (Inr ()) \<Longrightarrow>
   lspConnection (snd (startLSP_latest w srv)) = Some MessageConnection"
  by (auto simp: startLSP_latest_def await_def throw_def Let_def split: sum.splits if_splits)

lemma run_prompt: "Connect \<in> set (snd (fst (run prompt_startup constructor)))"
  by (simp add: run_def connect_after_def startLSP_def spawn_and_initialize_def handshake_def
      await_def race_timeout_def prompt_startup_def silent_startup_def Let_def)



lemma last_sort_Max:
  fixes ds :: "jsstring list"
  assumes "ds \<noteq> []"
  shows "hd (rev (sort ds)) = Max (set ds)"
proof -
  have ne: "sort ds \<noteq> []"
    using assms by (metis length_sort length_0_conv)
  have "hd (rev (sort ds)) = last (sort ds)"
    using ne by (simp add: hd_rev)
  moreover have "last (sort ds) \<in> set ds"
    using ne last_in_set [of "sort ds"] by simp
  moreover have "\<And>x. x \<in> set ds \<Longrightarrow> x \<le> last (sort ds)"
  proof -
    fix x
    assume "x \<in> set ds"
    then have "x \<in> set (sort ds)" by simp
    then obtain i where i: "i < length (sort ds)" and x: "x = sort ds ! i"
      by (metis in_set_conv_nth)
    have "sort ds ! i \<le> sort ds ! (length (sort ds) - 1)"
      using i by (intro sorted_nth_mono) auto
    then show "x \<le> last (sort ds)"
      using ne x by (simp add: last_conv_nth)
  qed
  ultimately have "hd (rev (sort ds)) = last (sort ds)"
    and "Max (set ds) = last (sort ds)"
    by (auto intro!: Max_eqI)
  then show ?thesis by simp
qed

section \<open>The claims\<close>

subsection \<open>C1: failures inside a call\<close>




subsection \<open>C2: what the stream filter lets through\<close>

lemma keep_line_trimmed:
  "keep_line ln \<longleftrightarrow>
     trim ln = [] \<or> startsWith (trim ln) (lit ''Content-Length:'') \<or> startsWith (trim ln) (lit ''{'')"
  by (auto simp: keep_line_def Let_def)

text \<open>
  C2, as amended. For every chunk, the pushed text, split at line feeds again, consists of
  exactly those lines of the chunk whose \<^emph>\<open>trimmed\<close> form is empty, begins with
  \<^verbatim>\<open>Content-Length:\<close> or begins with an open brace; they pass untrimmed and in their
  original order (a subsequence of the chunk's lines), and every other line is dropped.
  Nothing is pushed when the rejoined text is empty, that is when no line survives or only
  a single empty one.
\<close>

theorem cleanStream_keeps_lines_by_trimmed_form:
  "pushed_lines chunk =
     (let kept = filter (\<lambda>ln. trim ln = [] \<or>
                              startsWith (trim ln) (lit ''Content-Length:'') \<or>
                              startsWith (trim ln) (lit ''{''))
                        (split_nl chunk)
      in if kept = [] \<or> kept = [[]] then [] else kept)
   \<and> subseq (pushed_lines chunk) (split_nl chunk)"
proof -
  have same: "(\<lambda>ln. trim ln = [] \<or> startsWith (trim ln) (lit ''Content-Length:'') \<or>
                     startsWith (trim ln) (lit ''{'')) = keep_line"
    by (rule ext) (simp add: keep_line_trimmed)
  have eq: "pushed_lines chunk =
      (let kept = filter keep_line (split_nl chunk) in if kept = [] \<or> kept = [[]] then [] else kept)"
    by (simp add: pushed_lines_filter join_nl_empty_iff)
  have "subseq (pushed_lines chunk) (split_nl chunk)"
    unfolding eq by (simp add: Let_def)
  with eq show ?thesis
    by (simp only: same)
qed

text \<open>
  A frame followed by a banner line and an indented brace line: header, separator and
  payload pass, the banner is dropped, the indented line passes with its indentation.
\<close>

theorem cleanStream_keeps_lines_by_trimmed_form_witness:
  "pushed_lines (lit ''Content-Length: 2'' @ [0x000D, 0x000A, 0x000D, 0x000A] @ lit ''{}''
                 @ [0x000A] @ lit ''Starting server'' @ [0x000A] @ lit ''  {x'')
   = [lit ''Content-Length: 2'' @ [0x000D], [0x000D], lit ''{}'', lit ''  {x'']"
  using cleanStream_keeps_lines_by_trimmed_form
    [of "lit ''Content-Length: 2'' @ [0x000D, 0x000A, 0x000D, 0x000A] @ lit ''{}''
                 @ [0x000A] @ lit ''Starting server'' @ [0x000A] @ lit ''  {x''"]
  by (simp add: lit_def trim_def startsWith_def isWhiteSpace_def)

text \<open>
  C2 as stated fails: the line made of a space and an open brace is neither blank nor does
  it begin with the header or with an open brace, and it passes.
\<close>

theorem cleanStream_described_kinds_counterexample:
  "transform (lit '' {'') = [lit '' {''] \<and> \<not> described_keep_line (lit '' {'')"
  by (simp add: transform_def keep_line_def described_keep_line_def trim_def startsWith_def
      isWhiteSpace_def lit_def)

subsection \<open>C3: calls before the session is ready\<close>



subsection \<open>C4: the version of a document-open notification\<close>

text \<open>
  C4, as amended. Every document-open notification carries the version 1: in any sequence
  of calls served by the dispatcher, on the first open of a document and on every re-open
  alike, and in each registered handler. There is no version counter.
\<close>

theorem didOpen_version_is_always_one:
  "list_all (\<lambda>v. v = 1) (opened_versions (concat (map snd (session srv calls)))) \<and>
   list_all (\<lambda>v. v = 1) (opened_versions (snd (lpc_hover env srv args))) \<and>
   list_all (\<lambda>v. v = 1) (opened_versions (snd (lpc_definition env srv args))) \<and>
   list_all (\<lambda>v. v = 1) (opened_versions (snd (lpc_references env srv args))) \<and>
   list_all (\<lambda>v. v = 1) (opened_versions (snd (lpc_diagnostics env srv args)))"
proof -
  have "list_all (\<lambda>v. v = 1) (opened_versions (snd (lpc_hover env srv args)))"
    using opened_versions_callTool [of env srv "\<lparr>name = lit ''lpc_hover'', arguments = Some args\<rparr>"]
    by (simp only: callTool_hover)
  moreover have "list_all (\<lambda>v. v = 1) (opened_versions (snd (lpc_definition env srv args)))"
    using opened_versions_callTool [of env srv "\<lparr>name = lit ''lpc_definition'', arguments = Some args\<rparr>"]
    by (simp only: callTool_definition)
  moreover have "list_all (\<lambda>v. v = 1) (opened_versions (snd (lpc_references env srv args)))"
    using opened_versions_callTool [of env srv "\<lparr>name = lit ''lpc_references'', arguments = Some args\<rparr>"]
    by (simp only: callTool_references)
  moreover have "list_all (\<lambda>v. v = 1) (opened_versions (snd (lpc_diagnostics env srv args)))"
    using opened_versions_callTool [of env srv "\<lparr>name = lit ''lpc_diagnostics'', arguments = Some args\<rparr>"]
    by (simp only: callTool_diagnostics)
  ultimately show ?thesis
    using opened_versions_session [of srv calls] by blast
qed

text \<open>Two hovers on the same file in one session, and a registered hover.\<close>

theorem didOpen_version_is_always_one_witness:
  "list_all (\<lambda>v. v = 1)
     (opened_versions (concat (map snd
        (session ready [(answering, hover_room), (answering, hover_room)])))) \<and>
   list_all (\<lambda>v. v = 1) (opened_versions (snd (lpc_hover answering ready room_args))) \<and>
   list_all (\<lambda>v. v = 1) (opened_versions (snd (lpc_definition answering ready room_args))) \<and>
   list_all (\<lambda>v. v = 1) (opened_versions (snd (lpc_references answering ready room_args))) \<and>
   list_all (\<lambda>v. v = 1) (opened_versions (snd (lpc_diagnostics answering ready room_args)))"
  by (rule didOpen_version_is_always_one)

text \<open>
  C4 as stated fails: two successive hovers on the same unchanged file send the versions 1
  and 1, which do not increase.
\<close>

theorem didOpen_version_counterexample:
  "opened_versions (concat (map snd
      (session ready [(answering, hover_room), (answering, hover_room)]))) = [1, 1] \<and>
   \<not> sorted_wrt (<) (opened_versions (concat (map snd
      (session ready [(answering, hover_room), (answering, hover_room)]))))"
  unfolding session_two_hovers by simp

subsection \<open>C5: the diagnostics cache\<close>

text \<open>
  C5. For every document identity and every state of the server, a get right after the
  notification handler has set the entry returns exactly the sequence just set, whatever
  the entry was before; and a get for an identity that no notification since construction
  has named returns the empty sequence.
\<close>

theorem diagnosticsCache_set_then_get:
  "cached_diagnostics (onPublishDiagnostics \<lparr>params_uri = u, params_diagnostics = ds\<rparr> srv) u = ds
   \<and> (u \<notin> params_uri ` set pss \<longrightarrow> cached_diagnostics (deliver pss constructor) u = [])"
  by (simp add: cached_onPublishDiagnostics cached_deliver_other)
     (simp add: cached_diagnostics_def constructor_def)

theorem diagnosticsCache_set_then_get_witness:
  "cached_diagnostics
     (onPublishDiagnostics
        \<lparr>params_uri = lit ''file:///m/room.c'',
         params_diagnostics = [undefined_symbol \<lparr>pos_line = 2, pos_character = 9\<rparr>]\<rparr>
        (onPublishDiagnostics
           \<lparr>params_uri = lit ''file:///m/room.c'', params_diagnostics = []\<rparr> constructor))
     (lit ''file:///m/room.c'')
   = [undefined_symbol \<lparr>pos_line = 2, pos_character = 9\<rparr>]
   \<and> cached_diagnostics
       (deliver
          [\<lparr>params_uri = lit ''file:///m/hall.c'',
            params_diagnostics = [undefined_symbol \<lparr>pos_line = 2, pos_character = 9\<rparr>]\<rparr>]
          constructor)
       (lit ''file:///m/room.c'')
     = []"
proof -
  have other: "lit ''file:///m/room.c'' \<notin> params_uri `
      set [\<lparr>params_uri = lit ''file:///m/hall.c'',
            params_diagnostics = [undefined_symbol \<lparr>pos_line = 2, pos_character = 9\<rparr>]\<rparr>]"
    by (simp add: lit_def)
  show ?thesis
    using other
      diagnosticsCache_set_then_get
        [of "lit ''file:///m/room.c''" "[undefined_symbol \<lparr>pos_line = 2, pos_character = 9\<rparr>]"
            "onPublishDiagnostics
               \<lparr>params_uri = lit ''file:///m/room.c'', params_diagnostics = []\<rparr> constructor"
            "[\<lparr>params_uri = lit ''file:///m/hall.c'',
               params_diagnostics = [undefined_symbol \<lparr>pos_line = 2, pos_character = 9\<rparr>]\<rparr>]"]
    by blast
qed

subsection \<open>C6: the diagnostics call and its grace period\<close>

text \<open>
  C6. Whenever the connection exists, the file is readable and the server accepts the
  document-open notification, a diagnostics call does exactly this, in order: it reads the
  file, sends the notification, and sets a timer of 500 ms. Its result is made from the
  cache entry of the document as the notifications handled up to then have left it: with
  no entry, or with an empty one, the call returns the text
  \<^verbatim>\<open>No diagnostics found for this file. The code appears to be valid.\<close> without \<^verbatim>\<open>isError\<close>,
  the same in both cases; with a non-empty entry it returns the report of exactly that
  entry. The registered handler is the dispatcher at its name.
\<close>

theorem diagnostics_wait_then_read_cache:
  assumes "lspConnection srv \<noteq> None"
    and "readFile env (arg_file args) = Inr fileContent"
    and "sendNotification env (lit ''textDocument/didOpen'')
         (DidOpenTextDocumentParams
           \<lparr>uri = lit ''file://'' @ arg_file args, languageId = lit ''lpc'', version = 1,
            doc_text = fileContent\<rparr>) = Inr ()"
  shows
    "snd (callTool env srv \<lparr>name = lit ''lpc_diagnostics'', arguments = Some args\<rparr>) =
       [ReadFile (arg_file args),
        SendNotification (lit ''textDocument/didOpen'')
          (DidOpenTextDocumentParams
           \<lparr>uri = lit ''file://'' @ arg_file args, languageId = lit ''lpc'', version = 1,
            doc_text = fileContent\<rparr>),
        SetTimeout 500] \<and>
     (diagnosticsCache (deliver (published env) srv) (lit ''file://'' @ arg_file args) = None \<or>
      diagnosticsCache (deliver (published env) srv) (lit ''file://'' @ arg_file args) = Some [] \<longrightarrow>
        fst (callTool env srv \<lparr>name = lit ''lpc_diagnostics'', arguments = Some args\<rparr>) =
          Returns \<lparr>content =
                 [\<lparr>block_type = lit ''text'',
                   block_text =
                     lit ''No diagnostics found for this file. The code appears to be valid.''\<rparr>],
               isError = None\<rparr>) \<and>
     (\<forall>ds. diagnosticsCache (deliver (published env) srv) (lit ''file://'' @ arg_file args) = Some ds \<and> ds \<noteq> [] \<longrightarrow>
        fst (callTool env srv \<lparr>name = lit ''lpc_diagnostics'', arguments = Some args\<rparr>) =
          Returns \<lparr>content =
                 [\<lparr>block_type = lit ''text'',
                   block_text =
                     lit ''Found '' @ show_nat (length ds) @ lit '' diagnostic(s):''
                     @ [0x000A, 0x000A] @ join_nl (map format_diagnostic ds)
                     @ [0x000A, 0x000A] @ lit ''Raw diagnostics:''
                     @ [0x000A] @ stringify_diagnostics env ds\<rparr>],
               isError = None\<rparr>) \<and>
     lpc_diagnostics env srv args = callTool env srv \<lparr>name = lit ''lpc_diagnostics'', arguments = Some args\<rparr>"
proof -
  let ?rq = "\<lparr>name = lit ''lpc_diagnostics'', arguments = Some args\<rparr>"
  have args: "arguments ?rq = Some args" and nm: "name ?rq = lit ''lpc_diagnostics''"
    by simp_all
  have rd: "readFile env (arg_file args) = Inr fileContent"
    by (rule assms(2))
  have ntf: "sendNotification env (lit ''textDocument/didOpen'')
      (didOpen_params (document_uri args) fileContent) = Inr ()"
    using assms(3) by (simp add: didOpen_params_def document_uri_def)
  note out = callTool_outcome [OF assms(1) args, of env, unfolded nm]
  have events: "snd (callTool env srv \<lparr>name = lit ''lpc_diagnostics'', arguments = Some args\<rparr>) =
       [ReadFile (arg_file args),
        SendNotification (lit ''textDocument/didOpen'')
          (didOpen_params (document_uri args) fileContent),
        SetTimeout 500]"
    using rd ntf by (simp add: callTool_events [OF assms(1) args])
  have empty: "(diagnosticsCache (deliver (published env) srv) (document_uri args) = None \<or>
      diagnosticsCache (deliver (published env) srv) (document_uri args) = Some [] \<longrightarrow>
        fst (callTool env srv \<lparr>name = lit ''lpc_diagnostics'', arguments = Some args\<rparr>) =
          Returns (text_result
            (lit ''No diagnostics found for this file. The code appears to be valid.'')))"
    using rd ntf by (auto simp: out fst_diagnostics_report cached_diagnostics_def)
  have found: "(\<forall>ds. diagnosticsCache (deliver (published env) srv) (document_uri args) = Some ds \<and> ds \<noteq> [] \<longrightarrow>
        fst (callTool env srv \<lparr>name = lit ''lpc_diagnostics'', arguments = Some args\<rparr>) =
          Returns (text_result
            (lit ''Found '' @ show_nat (length ds) @ lit '' diagnostic(s):''
             @ [0x000A, 0x000A] @ join_nl (map format_diagnostic ds)
             @ [0x000A, 0x000A] @ lit ''Raw diagnostics:''
             @ [0x000A] @ stringify_diagnostics env ds)))"
    using rd ntf by (auto simp: out fst_diagnostics_report cached_diagnostics_def)
  note registered = callTool_diagnostics [of env srv args, symmetric]
  from events empty found registered show ?thesis
    unfolding text_result_def didOpen_params_def document_uri_def
    by - (intro conjI; assumption)
qed

text \<open>
  Two calls on \<^verbatim>\<open>/m/room.c\<close>. In the first the cache holds an issue when the call starts and
  the server publishes the empty set during the grace period: the call reports no issues.
  In the second the cache is empty when the call starts and the server publishes an issue
  during the grace period: the call reports it.
\<close>

theorem diagnostics_wait_then_read_cache_witness:
  "callTool
     (answering\<lparr>published := [\<lparr>params_uri = lit ''file:///m/room.c'', params_diagnostics = []\<rparr>]\<rparr>)
     (onPublishDiagnostics
        \<lparr>params_uri = lit ''file:///m/room.c'',
         params_diagnostics =
           [\<lparr>severity = Some 1,
                diag_range = \<lparr>range_start = \<lparr>pos_line = 2, pos_character = 3\<rparr>,
                              range_end = \<lparr>pos_line = 2, pos_character = 9\<rparr>\<rparr>,
                message = lit ''undefined symbol''\<rparr>]\<rparr> ready)
     \<lparr>name = lit ''lpc_diagnostics'',
           arguments =
             Some \<lparr>arg_file = lit ''/m/room.c'', arg_line = None, arg_character = None\<rparr>\<rparr> =
     (Returns \<lparr>content =
              [\<lparr>block_type = lit ''text'',
                block_text =
                  lit ''No diagnostics found for this file. The code appears to be valid.''\<rparr>],
            isError = None\<rparr>,
      [ReadFile (lit ''/m/room.c''),
       SendNotification (lit ''textDocument/didOpen'')
         (DidOpenTextDocumentParams
          \<lparr>uri = lit ''file:///m/room.c'', languageId = lit ''lpc'', version = 1,
           doc_text = lit ''inherit ROOM;''\<rparr>),
       SetTimeout 500]) \<and>
   fst (callTool
          (answering\<lparr>published :=
             [\<lparr>params_uri = lit ''file:///m/room.c'',
               params_diagnostics =
                 [\<lparr>severity = Some 1,
                diag_range = \<lparr>range_start = \<lparr>pos_line = 2, pos_character = 3\<rparr>,
                              range_end = \<lparr>pos_line = 2, pos_character = 9\<rparr>\<rparr>,
                message = lit ''undefined symbol''\<rparr>]\<rparr>]\<rparr>)
          ready
          \<lparr>name = lit ''lpc_diagnostics'',
           arguments =
             Some \<lparr>arg_file = lit ''/m/room.c'', arg_line = None, arg_character = None\<rparr>\<rparr>) =
     Returns \<lparr>content =
              [\<lparr>block_type = lit ''text'',
                block_text =
                  lit ''Found 1 diagnostic(s):'' @ [0x000A, 0x000A]
                  @ lit ''[Error] Line 3:4 - undefined symbol'' @ [0x000A, 0x000A]
                  @ lit ''Raw diagnostics:'' @ [0x000A] @ lit ''2:3''\<rparr>],
            isError = None\<rparr>"
proof -
  let ?args = "\<lparr>arg_file = lit ''/m/room.c'', arg_line = None, arg_character = None\<rparr>"
  let ?d = "\<lparr>severity = Some 1,
                diag_range = \<lparr>range_start = \<lparr>pos_line = 2, pos_character = 3\<rparr>,
                              range_end = \<lparr>pos_line = 2, pos_character = 9\<rparr>\<rparr>,
                message = lit ''undefined symbol''\<rparr>"
  let ?env1 = "answering\<lparr>published := [\<lparr>params_uri = lit ''file:///m/room.c'', params_diagnostics = []\<rparr>]\<rparr>"
  let ?srv1 = "onPublishDiagnostics
        \<lparr>params_uri = lit ''file:///m/room.c'', params_diagnostics = [?d]\<rparr> ready"
  let ?env2 = "answering\<lparr>published :=
             [\<lparr>params_uri = lit ''file:///m/room.c'', params_diagnostics = [?d]\<rparr>]\<rparr>"
  have u: "lit ''file://'' @ lit ''/m/room.c'' = lit ''file:///m/room.c''"
    by (simp add: lit_def)
  have f: "arg_file ?args = lit ''/m/room.c''"
    by simp
  have conn1: "lspConnection ?srv1 \<noteq> None" and conn2: "lspConnection ready \<noteq> None"
    by (simp_all add: ready_def constructor_def)
  have rd1: "readFile ?env1 (arg_file ?args) = Inr (lit ''inherit ROOM;'')"
    and rd2: "readFile ?env2 (arg_file ?args) = Inr (lit ''inherit ROOM;'')"
    by (simp_all add: answering_def)
  have ntf1: "sendNotification ?env1 (lit ''textDocument/didOpen'')
      (DidOpenTextDocumentParams
         \<lparr>uri = lit ''file://'' @ arg_file ?args, languageId = lit ''lpc'', version = 1,
          doc_text = lit ''inherit ROOM;''\<rparr>) = Inr ()"
    and ntf2: "sendNotification ?env2 (lit ''textDocument/didOpen'')
      (DidOpenTextDocumentParams
         \<lparr>uri = lit ''file://'' @ arg_file ?args, languageId = lit ''lpc'', version = 1,
          doc_text = lit ''inherit ROOM;''\<rparr>) = Inr ()"
    by (simp_all add: answering_def)
  have cache1: "diagnosticsCache (deliver (published ?env1) ?srv1) (lit ''file:///m/room.c'') = Some []"
    by (simp add: onPublishDiagnostics_def)
  have cache2: "diagnosticsCache (deliver (published ?env2) ready) (lit ''file:///m/room.c'') = Some [?d] \<and>
      [?d] \<noteq> []"
    by (simp add: onPublishDiagnostics_def)
  note first = diagnostics_wait_then_read_cache [OF conn1 rd1 ntf1, unfolded f, unfolded u]
  note second = diagnostics_wait_then_read_cache [OF conn2 rd2 ntf2, unfolded f, unfolded u]
  have a: "callTool ?env1 ?srv1 \<lparr>name = lit ''lpc_diagnostics'',            arguments =              Some \<lparr>arg_file = lit ''/m/room.c'', arg_line = None, arg_character = None\<rparr>\<rparr> =
     (Returns \<lparr>content =
              [\<lparr>block_type = lit ''text'',
                block_text =
                  lit ''No diagnostics found for this file. The code appears to be valid.''\<rparr>],
            isError = None\<rparr>,
      [ReadFile (lit ''/m/room.c''),
       SendNotification (lit ''textDocument/didOpen'')
         (DidOpenTextDocumentParams
          \<lparr>uri = lit ''file:///m/room.c'', languageId = lit ''lpc'', version = 1,
           doc_text = lit ''inherit ROOM;''\<rparr>),
       SetTimeout 500])"
    by (rule prod_eqI)
      (simp_all only: fst_conv snd_conv first [THEN conjunct1]
        first [THEN conjunct2, THEN conjunct1, THEN mp, OF disjI2 [OF cache1]])
  have raw: "stringify_diagnostics ?env2 [?d] = lit ''2:3''"
    by (simp add: answering_def show_nat_digit lit_def)
  have one: "show_nat (length [?d]) = lit ''1''"
    by (simp add: show_nat_digit lit_def)
  have line: "join_nl (map format_diagnostic [?d]) = lit ''[Error] Line 3:4 - undefined symbol''"
    using format_undefined_symbol [of "\<lparr>pos_line = 2, pos_character = 9\<rparr>"]
    by (simp add: undefined_symbol_def)
  from second [THEN conjunct2, THEN conjunct2, THEN conjunct1, THEN spec, THEN mp, OF cache2]
  have "fst (callTool ?env2 ready \<lparr>name = lit ''lpc_diagnostics'',            arguments =              Some \<lparr>arg_file = lit ''/m/room.c'', arg_line = None, arg_character = None\<rparr>\<rparr>) =
     Returns \<lparr>content =
              [\<lparr>block_type = lit ''text'',
                block_text =
                  lit ''Found '' @ show_nat (length [?d]) @ lit '' diagnostic(s):''
                  @ [0x000A, 0x000A] @ join_nl (map format_diagnostic [?d])
                  @ [0x000A, 0x000A] @ lit ''Raw diagnostics:''
                  @ [0x000A] @ stringify_diagnostics ?env2 [?d]\<rparr>],
            isError = None\<rparr>" .
  then have b: "fst (callTool ?env2 ready \<lparr>name = lit ''lpc_diagnostics'',            arguments =              Some \<lparr>arg_file = lit ''/m/room.c'', arg_line = None, arg_character = None\<rparr>\<rparr>) =
     Returns \<lparr>content =
              [\<lparr>block_type = lit ''text'',
                block_text =
                  lit ''Found 1 diagnostic(s):'' @ [0x000A, 0x000A]
                  @ lit ''[Error] Line 3:4 - undefined symbol'' @ [0x000A, 0x000A]
                  @ lit ''Raw diagnostics:'' @ [0x000A] @ lit ''2:3''\<rparr>],
            isError = None\<rparr>"
    unfolding raw one line by (simp add: lit_def)
  from a b show ?thesis by (rule conjI)
qed

subsection \<open>C7: every call opens the document first\<close>




subsection \<open>C8: the handshake timeout\<close>

text \<open>
  C8. If the answer to \<^verbatim>\<open>initialize\<close> does not arrive within 5000 ms, \<^verbatim>\<open>startLSP\<close> fails
  with the error \<^verbatim>\<open>LSP init timeout\<close>, having spawned the server once, sent \<^verbatim>\<open>initialize\<close>
  once and set the timer of 5000 ms; \<^verbatim>\<open>run\<close> fails with it and does nothing more: no second
  attempt, no \<^verbatim>\<open>initialized\<close> notification, and the tool transport is never connected.
  The same holds of the registerTool variant once an extension directory has been found.
\<close>

theorem initialize_timeout_is_fatal:
  assumes "\<not> arrives_within (initialize_reply w) 5000"
  shows
    "fst (startLSP w srv) =
       (Some (Inl (lit ''LSP init timeout'')),
        [Spawn (lit ''node'')
           [path_join w
              [HOME w, lit ''.vscode/extensions/jlchmura.lpc-1.1.42/out/server/src/server.js''],
            lit ''--stdio''],
         SendRequest (lit ''initialize'') (InitializeParams (rootUri w)),
         SetTimeout 5000]) \<and>
     fst (run w srv) = fst (startLSP w srv) \<and>
     (\<forall>ds. directories w = Inr ds \<and> ds \<noteq> [] \<longrightarrow>
        fst (startLSP_latest w srv) =
          (Some (Inl (lit ''LSP init timeout'')),
           [ReadDirectory (path_join w [HOME w, lit ''.vscode/extensions''])
              (lit ''jlchmura.lpc-*''),
            Spawn (lit ''node'')
              [path_join w
                 [path_join w [HOME w, lit ''.vscode/extensions''], hd (rev (sort ds)),
                  lit ''out/server/src/server.js''],
               lit ''--stdio''],
            SendRequest (lit ''initialize'') (InitializeParams (rootUri w)),
            SetTimeout 5000]) \<and>
        fst (run_latest w srv) = fst (startLSP_latest w srv))"
proof -
  have start: "fst (startLSP w srv) =
       (Some (Inl (lit ''LSP init timeout'')),
        [Spawn (lit ''node'')
           [path_join w
              [HOME w, lit ''.vscode/extensions/jlchmura.lpc-1.1.42/out/server/src/server.js''],
            lit ''--stdio''],
         SendRequest (lit ''initialize'') (InitializeParams (rootUri w)),
         SetTimeout 5000])"
    using assms by (simp add: startLSP_def spawn_and_initialize_timeout)
  have run: "fst (run w srv) = fst (startLSP w srv)"
    by (simp add: run_def connect_after_def start)
  have latest: "\<forall>ds. directories w = Inr ds \<and> ds \<noteq> [] \<longrightarrow>
        fst (startLSP_latest w srv) =
          (Some (Inl (lit ''LSP init timeout'')),
           [ReadDirectory (path_join w [HOME w, lit ''.vscode/extensions''])
              (lit ''jlchmura.lpc-*''),
            Spawn (lit ''node'')
              [path_join w
                 [path_join w [HOME w, lit ''.vscode/extensions''], hd (rev (sort ds)),
                  lit ''out/server/src/server.js''],
               lit ''--stdio''],
            SendRequest (lit ''initialize'') (InitializeParams (rootUri w)),
            SetTimeout 5000]) \<and>
        fst (run_latest w srv) = fst (startLSP_latest w srv)"
    using assms
    by (auto simp: startLSP_latest_def run_latest_def connect_after_def await_def Let_def
        spawn_and_initialize_timeout)
  from start run latest show ?thesis by blast
qed

text \<open>A server that never answers.\<close>

theorem initialize_timeout_is_fatal_witness:
  "fst (run silent_startup constructor) =
     (Some (Inl (lit ''LSP init timeout'')),
      [Spawn (lit ''node'')
         [lit ''/home/u/.vscode/extensions/jlchmura.lpc-1.1.42/out/server/src/server.js'',
          lit ''--stdio''],
       SendRequest (lit ''initialize'') (InitializeParams (Some (lit ''file:///m''))),
       SetTimeout 5000]) \<and>
   fst (run_latest silent_startup constructor) =
     (Some (Inl (lit ''LSP init timeout'')),
      [ReadDirectory (lit ''/home/u/.vscode/extensions'') (lit ''jlchmura.lpc-*''),
       Spawn (lit ''node'')
         [lit ''/home/u/.vscode/extensions/jlchmura.lpc-1.1.9/out/server/src/server.js'',
          lit ''--stdio''],
       SendRequest (lit ''initialize'') (InitializeParams (Some (lit ''file:///m''))),
       SetTimeout 5000])"
proof -
  have late: "\<not> arrives_within (initialize_reply silent_startup) 5000"
    by (simp add: silent_startup_def)
  have dirs: "directories silent_startup =
       Inr [lit ''jlchmura.lpc-1.1.42'', lit ''jlchmura.lpc-1.1.9''] \<and>
     [lit ''jlchmura.lpc-1.1.42'', lit ''jlchmura.lpc-1.1.9''] \<noteq> []"
    by (simp add: silent_startup_def)
  have newest: "hd (rev (sort [lit ''jlchmura.lpc-1.1.42'', lit ''jlchmura.lpc-1.1.9''])) =
      lit ''jlchmura.lpc-1.1.9''"
    by (simp add: lit_def)
  have root: "rootUri silent_startup = Some (lit ''file:///m'')"
    by (simp add: rootUri_def silent_startup_def lit_def)
  have p1: "path_join silent_startup
      [HOME silent_startup,
       lit ''.vscode/extensions/jlchmura.lpc-1.1.42/out/server/src/server.js''] =
      lit ''/home/u/.vscode/extensions/jlchmura.lpc-1.1.42/out/server/src/server.js''"
    by (simp add: silent_startup_def lit_def)
  have p2: "path_join silent_startup [HOME silent_startup, lit ''.vscode/extensions''] =
      lit ''/home/u/.vscode/extensions''"
    by (simp add: silent_startup_def lit_def)
  have p3: "path_join silent_startup
      [lit ''/home/u/.vscode/extensions'', lit ''jlchmura.lpc-1.1.9'',
       lit ''out/server/src/server.js''] =
      lit ''/home/u/.vscode/extensions/jlchmura.lpc-1.1.9/out/server/src/server.js''"
    by (simp add: silent_startup_def lit_def)
  note fatal = initialize_timeout_is_fatal [OF late, of constructor, unfolded root p1 p2]
  note first = fatal [THEN conjunct1]
  note same = fatal [THEN conjunct2, THEN conjunct1]
  note latest = fatal [THEN conjunct2, THEN conjunct2, THEN spec, THEN mp, OF dirs,
      unfolded newest p3]
  note second = latest [THEN conjunct1]
  note same_latest = latest [THEN conjunct2]
  show ?thesis
    unfolding same same_latest
    by (rule conjI [OF first second])
qed

subsection \<open>C9: a pushed issue is reported\<close>

text \<open>
  C9. Let the server have pushed, for \<^verbatim>\<open>file:///m/room.c\<close>, one issue of severity Error at
  line 2, character 3, with the message \<^verbatim>\<open>undefined symbol\<close>. A later diagnostics call on
  \<^verbatim>\<open>/m/room.c\<close> (connection present, file readable, notification accepted, no further push
  for that document during the call) returns, without \<^verbatim>\<open>isError\<close>, one text block: the line
  \<^verbatim>\<open>Found 1 diagnostic(s):\<close>, the line \<^verbatim>\<open>[Error] Line 3:4 - undefined symbol\<close>, and after
  \<^verbatim>\<open>Raw diagnostics:\<close> the JSON text of the cached array itself, whose one record still has
  line 2 and character 3. The registered handler gives the same.
\<close>

theorem pushed_issue_is_reported:
  assumes "lspConnection srv \<noteq> None"
    and "readFile env (lit ''/m/room.c'') = Inr fileContent"
    and "sendNotification env (lit ''textDocument/didOpen'')
           (DidOpenTextDocumentParams
              \<lparr>uri = lit ''file:///m/room.c'', languageId = lit ''lpc'', version = 1,
               doc_text = fileContent\<rparr>) = Inr ()"
    and "lit ''file:///m/room.c'' \<notin> params_uri ` set (published env)"
  shows
    "fst (callTool env
            (onPublishDiagnostics
               \<lparr>params_uri = lit ''file:///m/room.c'',
                params_diagnostics =
                  [\<lparr>severity = Some 1,
                    diag_range = \<lparr>range_start = \<lparr>pos_line = 2, pos_character = 3\<rparr>, range_end = e\<rparr>,
                    message = lit ''undefined symbol''\<rparr>]\<rparr> srv)
            \<lparr>name = lit ''lpc_diagnostics'',
              arguments =
                Some \<lparr>arg_file = lit ''/m/room.c'', arg_line = None, arg_character = None\<rparr>\<rparr>) =
       Returns \<lparr>content =
                 [\<lparr>block_type = lit ''text'',
                   block_text =
                     lit ''Found 1 diagnostic(s):'' @ [0x000A, 0x000A]
                     @ lit ''[Error] Line 3:4 - undefined symbol'' @ [0x000A, 0x000A]
                     @ lit ''Raw diagnostics:'' @ [0x000A]
                     @ stringify_diagnostics env
                     [\<lparr>severity = Some 1,
                       diag_range = \<lparr>range_start = \<lparr>pos_line = 2, pos_character = 3\<rparr>, range_end = e\<rparr>,
                       message = lit ''undefined symbol''\<rparr>]\<rparr>],
                isError = None\<rparr> \<and>
     lpc_diagnostics env
       (onPublishDiagnostics
          \<lparr>params_uri = lit ''file:///m/room.c'',
           params_diagnostics =
             [\<lparr>severity = Some 1,
               diag_range = \<lparr>range_start = \<lparr>pos_line = 2, pos_character = 3\<rparr>, range_end = e\<rparr>,
               message = lit ''undefined symbol''\<rparr>]\<rparr> srv)
       \<lparr>arg_file = lit ''/m/room.c'', arg_line = None, arg_character = None\<rparr> =
     callTool env
       (onPublishDiagnostics
          \<lparr>params_uri = lit ''file:///m/room.c'',
           params_diagnostics =
             [\<lparr>severity = Some 1,
               diag_range = \<lparr>range_start = \<lparr>pos_line = 2, pos_character = 3\<rparr>, range_end = e\<rparr>,
               message = lit ''undefined symbol''\<rparr>]\<rparr> srv)
       \<lparr>name = lit ''lpc_diagnostics'',
              arguments =
                Some \<lparr>arg_file = lit ''/m/room.c'', arg_line = None, arg_character = None\<rparr>\<rparr>"
proof -
  let ?d = "\<lparr>severity = Some 1,
             diag_range = \<lparr>range_start = \<lparr>pos_line = 2, pos_character = 3\<rparr>, range_end = e\<rparr>,
             message = lit ''undefined symbol''\<rparr>"
  let ?srv = "onPublishDiagnostics
      \<lparr>params_uri = lit ''file:///m/room.c'', params_diagnostics = [?d]\<rparr> srv"
  let ?args = "\<lparr>arg_file = lit ''/m/room.c'', arg_line = None, arg_character = None\<rparr>"
  let ?rq = "\<lparr>name = lit ''lpc_diagnostics'', arguments = Some ?args\<rparr>"
  have conn: "lspConnection ?srv \<noteq> None"
    using assms(1) by simp
  have args: "arguments ?rq = Some ?args"
    by simp
  have u: "document_uri ?args = lit ''file:///m/room.c''"
    by (simp add: document_uri_def lit_def)
  have ntf: "sendNotification env (lit ''textDocument/didOpen'')
      (didOpen_params (lit ''file:///m/room.c'') fileContent) = Inr ()"
    using assms(3) by (simp add: didOpen_params_def)
  have d: "?d = undefined_symbol e"
    by (simp add: undefined_symbol_def)
  have cached: "cached_diagnostics (deliver (published env) ?srv) (lit ''file:///m/room.c'') = [?d]"
    using assms(4) by (simp add: cached_deliver_other cached_onPublishDiagnostics)
  have line: "format_diagnostic ?d = lit ''[Error] Line 3:4 - undefined symbol''"
    unfolding d by (rule format_undefined_symbol)
  have "fst (callTool env ?srv ?rq) =
       Returns (text_result
         (lit ''Found 1 diagnostic(s):'' @ [0x000A, 0x000A]
          @ lit ''[Error] Line 3:4 - undefined symbol'' @ [0x000A, 0x000A]
          @ lit ''Raw diagnostics:'' @ [0x000A]
          @ stringify_diagnostics env [?d]))"
    using assms(2) ntf
    by (simp add: callTool_outcome [OF conn args] u fst_diagnostics_report cached line
        show_nat_digit)
       (simp add: lit_def)
  moreover have "lpc_diagnostics env ?srv ?args = callTool env ?srv ?rq"
    by (rule callTool_diagnostics [symmetric])
  ultimately show ?thesis
    unfolding text_result_def by (rule conjI)
qed

text \<open>
  The scenario with collaborators that answer everything and print of each record its line
  and character.
\<close>

theorem pushed_issue_is_reported_witness:
  "fst (callTool answering
          (onPublishDiagnostics
             \<lparr>params_uri = lit ''file:///m/room.c'',
              params_diagnostics =
                [\<lparr>severity = Some 1,
                  diag_range = \<lparr>range_start = \<lparr>pos_line = 2, pos_character = 3\<rparr>, range_end = \<lparr>pos_line = 2, pos_character = 9\<rparr>\<rparr>,
                  message = lit ''undefined symbol''\<rparr>]\<rparr> ready)
          \<lparr>name = lit ''lpc_diagnostics'',
           arguments =
             Some \<lparr>arg_file = lit ''/m/room.c'', arg_line = None, arg_character = None\<rparr>\<rparr>) =
     Returns \<lparr>content =
               [\<lparr>block_type = lit ''text'',
                 block_text =
                   lit ''Found 1 diagnostic(s):'' @ [0x000A, 0x000A]
                   @ lit ''[Error] Line 3:4 - undefined symbol'' @ [0x000A, 0x000A]
                   @ lit ''Raw diagnostics:'' @ [0x000A]
                   @ lit ''2:3''\<rparr>],
              isError = None\<rparr>"
proof -
  have conn: "lspConnection ready \<noteq> None"
    by (simp add: ready_def constructor_def)
  have rd: "readFile answering (lit ''/m/room.c'') = Inr (lit ''inherit ROOM;'')"
    by (simp add: answering_def)
  have ntf: "sendNotification answering (lit ''textDocument/didOpen'')
      (DidOpenTextDocumentParams
         \<lparr>uri = lit ''file:///m/room.c'', languageId = lit ''lpc'', version = 1,
          doc_text = lit ''inherit ROOM;''\<rparr>) = Inr ()"
    by (simp add: answering_def)
  have quiet: "lit ''file:///m/room.c'' \<notin> params_uri ` set (published answering)"
    by (simp add: answering_def)
  have s: "stringify_diagnostics answering
      [\<lparr>severity = Some 1,
        diag_range = \<lparr>range_start = \<lparr>pos_line = 2, pos_character = 3\<rparr>, range_end = \<lparr>pos_line = 2, pos_character = 9\<rparr>\<rparr>,
        message = lit ''undefined symbol''\<rparr>] = lit ''2:3''"
    by (simp add: answering_def show_nat_digit lit_def)
  note reported = pushed_issue_is_reported
    [OF conn rd ntf quiet, of "\<lparr>pos_line = 2, pos_character = 9\<rparr>", THEN conjunct1, unfolded s]
  show ?thesis
    by (rule reported)
qed

subsection \<open>C10: references include the declaration\<close>

text \<open>
  C10. A references call sends no request other than \<^verbatim>\<open>textDocument/references\<close> for the
  document and position given, with \<^verbatim>\<open>includeDeclaration\<close> true; it sends exactly that one
  whenever the connection exists, the file is readable and the server accepts the
  document-open notification. The registered handler is the dispatcher at its name.
\<close>

theorem references_include_declaration:
  "(sent_requests (snd (callTool env srv \<lparr>name = lit ''lpc_references'', arguments = Some args\<rparr>)) = [] \<or>
    sent_requests (snd (callTool env srv \<lparr>name = lit ''lpc_references'', arguments = Some args\<rparr>)) =
      [SendRequest (lit ''textDocument/references'')
         (ReferenceParams (document_uri args) (position_of args) True)]) \<and>
   (lspConnection srv \<noteq> None \<and> readFile env (arg_file args) = Inr fileContent \<and>
    sendNotification env (lit ''textDocument/didOpen'')
      (didOpen_params (document_uri args) fileContent) = Inr () \<longrightarrow>
    sent_requests (snd (callTool env srv \<lparr>name = lit ''lpc_references'', arguments = Some args\<rparr>)) =
      [SendRequest (lit ''textDocument/references'')
         (ReferenceParams (document_uri args) (position_of args) True)]) \<and>
   lpc_references env srv args =
     callTool env srv \<lparr>name = lit ''lpc_references'', arguments = Some args\<rparr>"
proof (cases "lspConnection srv = None")
  case True
  then show ?thesis
    by (simp add: callTool_not_initialized callTool_references [symmetric])
next
  case False
  then show ?thesis
    by (simp add: callTool_references_requests callTool_references [symmetric] split: sum.splits)
qed

text \<open>References at line 4, character 10 of \<^verbatim>\<open>/m/room.c\<close>.\<close>

theorem references_include_declaration_witness:
  "sent_requests (snd (callTool answering ready \<lparr>name = lit ''lpc_references'', arguments = Some room_args\<rparr>)) =
      [SendRequest (lit ''textDocument/references'')
         (ReferenceParams (lit ''file:///m/room.c'')
            \<lparr>pos_line = Some 4, pos_character = Some 10\<rparr> True)] \<and>
   sent_requests (snd (lpc_references answering ready room_args)) =
      [SendRequest (lit ''textDocument/references'')
         (ReferenceParams (lit ''file:///m/room.c'')
            \<lparr>pos_line = Some 4, pos_character = Some 10\<rparr> True)]"
proof -
  have conn: "lspConnection ready \<noteq> None"
    by (simp add: ready_def constructor_def)
  have rd: "readFile answering (arg_file room_args) = Inr (lit ''inherit ROOM;'')"
    by (simp add: answering_def)
  have ntf: "sendNotification answering (lit ''textDocument/didOpen'')
      (didOpen_params (document_uri room_args) (lit ''inherit ROOM;'')) = Inr ()"
    by (simp add: answering_def)
  have u: "document_uri room_args = lit ''file:///m/room.c''"
    by (simp add: document_uri_def room_args_def lit_def)
  have p: "position_of room_args = \<lparr>pos_line = Some 4, pos_character = Some 10\<rparr>"
    by (simp add: position_of_def room_args_def)
  show ?thesis
    using references_include_declaration [of answering ready room_args "lit ''inherit ROOM;''"]
      conn rd ntf
    unfolding u p
    by simp
qed

section \<open>Further properties\<close>

text \<open>
  The two variants agree: each registered handler has the outcome and the events of the
  dispatcher at the handler's name, for all collaborators, server states and arguments.
\<close>

theorem registered_handlers_agree_with_dispatcher:
  "lpc_hover env srv args = callTool env srv \<lparr>name = lit ''lpc_hover'', arguments = Some args\<rparr> \<and>
   lpc_definition env srv args =
     callTool env srv \<lparr>name = lit ''lpc_definition'', arguments = Some args\<rparr> \<and>
   lpc_references env srv args =
     callTool env srv \<lparr>name = lit ''lpc_references'', arguments = Some args\<rparr> \<and>
   lpc_diagnostics env srv args =
     callTool env srv \<lparr>name = lit ''lpc_diagnostics'', arguments = Some args\<rparr>"
  by (simp only: callTool_hover callTool_definition callTool_references callTool_diagnostics
      simp_thms)

text \<open>
  The tool transport is connected only after a successful handshake, and then the
  connection exists: a call served through \<^verbatim>\<open>run\<close> never meets the guard's error.
\<close>

theorem connected_transport_has_connection:
  "(Connect \<in> set (snd (fst (run w srv))) \<longrightarrow>
      fst (fst (startLSP w srv)) = Some (Inr ()) \<and>
      lspConnection (snd (run w srv)) = Some MessageConnection) \<and>
   (Connect \<in> set (snd (fst (run_latest w srv))) \<longrightarrow>
      fst (fst (startLSP_latest w srv)) = Some (Inr ()) \<and>
      lspConnection (snd (run_latest w srv)) = Some MessageConnection)"
proof -
  have a: "Connect \<in> set (snd (fst (run w srv))) \<longrightarrow>
      fst (fst (startLSP w srv)) = Some (Inr ()) \<and>
      lspConnection (snd (run w srv)) = Some MessageConnection"
    using and_then_events_prefix [of "fst (startLSP w srv)"]
      spawn_and_initialize_no_Connect [of w _ srv]
    by (auto simp: run_def connect_after_def startLSP_def Let_def)
  have b: "Connect \<in> set (snd (fst (run_latest w srv))) \<longrightarrow>
      fst (fst (startLSP_latest w srv)) = Some (Inr ()) \<and>
      lspConnection (snd (run_latest w srv)) = Some MessageConnection"
    using and_then_events_prefix [of "fst (startLSP_latest w srv)"]
      startLSP_latest_no_Connect [of w srv] startLSP_latest_success [of w srv]
    by (auto simp: run_latest_def connect_after_def)
  from a b show ?thesis by blast
qed

theorem connected_transport_has_connection_witness:
  "Connect \<in> set (snd (fst (run prompt_startup constructor))) \<and>
   lspConnection (snd (run prompt_startup constructor)) = Some MessageConnection"
  using connected_transport_has_connection [of prompt_startup constructor] run_prompt
  by blast

text \<open>
  A chunk all of whose lines are kept passes through the filter unchanged (an empty chunk
  pushes nothing).
\<close>

theorem clean_chunk_passes_unchanged:
  "list_all keep_line (split_nl chunk) \<Longrightarrow>
   transform chunk = (if chunk = [] then [] else [chunk])"
  by (simp add: transform_def Let_def list_all_iff join_split_nl)

theorem clean_chunk_passes_unchanged_witness:
  "transform (lit ''Content-Length: 2'' @ [0x000D, 0x000A, 0x000D, 0x000A] @ lit ''{}'') =
     [lit ''Content-Length: 2'' @ [0x000D, 0x000A, 0x000D, 0x000A] @ lit ''{}'']"
proof -
  have clean: "list_all keep_line
      (split_nl (lit ''Content-Length: 2'' @ [0x000D, 0x000A, 0x000D, 0x000A] @ lit ''{}''))"
    by (simp add: lit_def keep_line_def trim_def startsWith_def isWhiteSpace_def)
  show ?thesis
    using clean_chunk_passes_unchanged [OF clean] by (simp add: lit_def)
qed

text \<open>
  The registerTool variant spawns the server of the extension directory whose name is the
  greatest in the order of \<^verbatim>\<open>sort()\<close>, which compares code units and not version numbers:
  of \<^verbatim>\<open>jlchmura.lpc-1.1.42\<close> and \<^verbatim>\<open>jlchmura.lpc-1.1.9\<close> it takes the latter.
\<close>

theorem latest_extension_is_greatest_name:
  "directories w = Inr ds \<and> ds \<noteq> [] \<longrightarrow>
     lspProcess (snd (startLSP_latest w srv)) =
       Some (ChildProcess (lit ''node'')
         [path_join w
            [path_join w [HOME w, lit ''.vscode/extensions''], Max (set ds),
             lit ''out/server/src/server.js''],
          lit ''--stdio''])"
  by (auto simp: startLSP_latest_def spawn_and_initialize_def Let_def last_sort_Max)

theorem latest_extension_is_greatest_name_witness:
  "lspProcess (snd (startLSP_latest silent_startup constructor)) =
     Some (ChildProcess (lit ''node'')
       [lit ''/home/u/.vscode/extensions/jlchmura.lpc-1.1.9/out/server/src/server.js'',
        lit ''--stdio''])"
proof -
  have dirs: "directories silent_startup =
       Inr [lit ''jlchmura.lpc-1.1.42'', lit ''jlchmura.lpc-1.1.9''] \<and>
     [lit ''jlchmura.lpc-1.1.42'', lit ''jlchmura.lpc-1.1.9''] \<noteq> []"
    by (simp add: silent_startup_def)
  have greatest: "Max (set [lit ''jlchmura.lpc-1.1.42'', lit ''jlchmura.lpc-1.1.9'']) =
      lit ''jlchmura.lpc-1.1.9''"
    by (simp add: lit_def)
  have p2: "path_join silent_startup [HOME silent_startup, lit ''.vscode/extensions''] =
      lit ''/home/u/.vscode/extensions''"
    by (simp add: silent_startup_def lit_def)
  have p3: "path_join silent_startup
      [lit ''/home/u/.vscode/extensions'', lit ''jlchmura.lpc-1.1.9'',
       lit ''out/server/src/server.js''] =
      lit ''/home/u/.vscode/extensions/jlchmura.lpc-1.1.9/out/server/src/server.js''"
    by (simp add: silent_startup_def lit_def)
  note chosen = latest_extension_is_greatest_name
    [of silent_startup _ constructor, THEN mp, OF dirs, unfolded greatest p2 p3]
  show ?thesis
    by (rule chosen)
qed

end
